theory Spec2Isabelle
  imports Complex_Main
begin

section \<open>Python strings\<close>

text \<open>
  A Python \<^verbatim>\<open>str\<close> is modelled as a \<^typ>\<open>string\<close> whose characters are the code points
  below 256, so \<^const>\<open>length\<close> counts code points as \<^verbatim>\<open>len\<close> does. The character
  classes below are those of CPython's Unicode database on that range.
\<close>

definition code :: "char \<Rightarrow> int" where
  \<comment> \<open>\<^verbatim>\<open>ord(c)\<close>\<close>
  "code c = of_char c"

definition is_space :: "char \<Rightarrow> bool" where
  \<comment> \<open>\<^verbatim>\<open>str.isspace\<close>, the class \<^verbatim>\<open>\s\<close> and what \<^verbatim>\<open>strip()\<close> removes\<close>
  "is_space c = (let n = code c in
     (9 \<le> n \<and> n \<le> 13) \<or> (28 \<le> n \<and> n \<le> 32) \<or> n = 133 \<or> n = 160)"

definition is_digit :: "char \<Rightarrow> bool" where
  \<comment> \<open>the class \<^verbatim>\<open>\d\<close>\<close>
  "is_digit c = (let n = code c in 48 \<le> n \<and> n \<le> 57)"

definition is_cased :: "char \<Rightarrow> bool" where
  "is_cased c = (let n = code c in
     (65 \<le> n \<and> n \<le> 90) \<or> (97 \<le> n \<and> n \<le> 122) \<or> n = 170 \<or> n = 181 \<or> n = 186 \<or>
     (192 \<le> n \<and> n \<le> 214) \<or> (216 \<le> n \<and> n \<le> 246) \<or> (248 \<le> n \<and> n \<le> 255))"

definition is_word :: "char \<Rightarrow> bool" where
  \<comment> \<open>the class \<^verbatim>\<open>\w\<close>: alphanumeric characters and the underscore\<close>
  "is_word c = (let n = code c in
     is_digit c \<or> is_cased c \<or> n = 95 \<or> n = 178 \<or> n = 179 \<or> n = 185 \<or>
     (188 \<le> n \<and> n \<le> 190))"

definition py_lower :: "char \<Rightarrow> char" where
  "py_lower c = (let n = code c in
     if (65 \<le> n \<and> n \<le> 90) \<or> (192 \<le> n \<and> n \<le> 222 \<and> n \<noteq> 215) then char_of (n + 32) else c)"

definition py_upper :: "char \<Rightarrow> string" where
  \<comment> \<open>the capital of \<^verbatim>\<open>\xdf\<close> is two letters; the capitals of \<^verbatim>\<open>\xb5\<close> and \<^verbatim>\<open>\xff\<close>
      lie beyond code point 255 and the letters are kept\<close>
  "py_upper c = (let n = code c in
     if (97 \<le> n \<and> n \<le> 122) \<or> (224 \<le> n \<and> n \<le> 254 \<and> n \<noteq> 247) then [char_of (n - 32)]
     else if n = 223 then ''SS'' else [c])"

definition lower :: "string \<Rightarrow> string" where
  "lower s = map py_lower s"

definition upper :: "string \<Rightarrow> string" where
  "upper s = concat (map py_upper s)"

fun title_from :: "bool \<Rightarrow> string \<Rightarrow> string" where
  \<comment> \<open>the flag says whether the character before is a cased one\<close>
  "title_from prev [] = []"
| "title_from prev (c # cs) =
     (if prev then [py_lower c]
      else if code c = 223 then ''Ss'' else py_upper c) @ title_from (is_cased c) cs"

definition title :: "string \<Rightarrow> string" where
  "title s = title_from False s"

definition lstrip :: "string \<Rightarrow> string" where
  "lstrip s = dropWhile is_space s"

definition rstrip :: "string \<Rightarrow> string" where
  "rstrip s = rev (dropWhile is_space (rev s))"

definition strip :: "string \<Rightarrow> string" where
  "strip s = rstrip (lstrip s)"

fun startswith :: "string \<Rightarrow> string \<Rightarrow> bool" where
  "startswith s [] = True"
| "startswith [] (a # p) = False"
| "startswith (c # s) (a # p) = (c = a \<and> startswith s p)"

definition endswith :: "string \<Rightarrow> string \<Rightarrow> bool" where
  "endswith s p = startswith (rev s) (rev p)"

fun str_in :: "string \<Rightarrow> string \<Rightarrow> bool" where
  \<comment> \<open>\<^verbatim>\<open>sub in s\<close>\<close>
  "str_in sub [] = (sub = [])"
| "str_in sub (c # cs) = (startswith (c # cs) sub \<or> str_in sub cs)"

fun split_cons :: "bool \<Rightarrow> char \<Rightarrow> string list \<Rightarrow> string list" where
  \<comment> \<open>a separator opens a new part, another character joins the first part\<close>
  "split_cons True c ps = [] # ps"
| "split_cons False c [] = [[c]]"
| "split_cons False c (p # ps) = (c # p) # ps"

fun split_on :: "char \<Rightarrow> string \<Rightarrow> string list" where
  \<comment> \<open>\<^verbatim>\<open>s.split(sep)\<close> for a separator of one character\<close>
  "split_on d [] = [[]]"
| "split_on d (c # cs) = split_cons (c = d) c (split_on d cs)"

fun replace_from :: "string \<Rightarrow> string \<Rightarrow> nat \<Rightarrow> string \<Rightarrow> string" where
  \<comment> \<open>the counter is the number of characters of a replaced occurrence still to skip\<close>
  "replace_from old new k [] = []"
| "replace_from old new (Suc k) (c # cs) = replace_from old new k cs"
| "replace_from old new 0 (c # cs) =
     (if startswith (c # cs) old then new @ replace_from old new (length old - 1) cs
      else c # replace_from old new 0 cs)"

definition replace :: "string \<Rightarrow> string \<Rightarrow> string \<Rightarrow> string" where
  \<comment> \<open>\<^verbatim>\<open>s.replace(old, new)\<close>: the occurrences from the left, not overlapping\<close>
  "replace s old new =
     (if old = [] then new @ concat (map (\<lambda>c. c # new) s) else replace_from old new 0 s)"

section \<open>Regular expressions\<close>

text \<open>
  The patterns of the source are terms of the type \<open>re\<close>. The matcher follows the
  backtracking search of Python's \<^verbatim>\<open>re\<close>: it lists the ways a pattern matches at a
  position in the order the search tries them (the alternatives of a pattern in their
  order, a greedy repetition from the longest to the shortest, a lazy one from the
  shortest to the longest), so the head of the list is the match that \<^verbatim>\<open>re\<close> reports.
\<close>

datatype re =
    Eps
  | Lit char
  | Cls "char \<Rightarrow> bool"
  | Cat re re
  | Alt re re
  | Rep bool nat "nat option" re
  | Grp nat re
  | Bol
  | Eol

text \<open>A matcher state: the position, the text from there on, the groups captured so far.\<close>

type_synonym mstate = "int \<times> string \<times> (nat \<times> string) list"

fun keep :: "bool \<Rightarrow> mstate \<Rightarrow> mstate list" where
  "keep True st = [st]"
| "keep False st = []"

fun lit :: "char \<Rightarrow> mstate \<Rightarrow> mstate list" where
  "lit c (p, [], g) = []"
| "lit c (p, x # xs, g) = keep (x = c) (p + 1, xs, g)"

fun cls :: "(char \<Rightarrow> bool) \<Rightarrow> mstate \<Rightarrow> mstate list" where
  "cls f (p, [], g) = []"
| "cls f (p, x # xs, g) = keep (f x) (p + 1, xs, g)"

fun bol :: "mstate \<Rightarrow> mstate list" where
  \<comment> \<open>\<^verbatim>\<open>^\<close>: the start of the text\<close>
  "bol (p, s, g) = keep (p = 0) (p, s, g)"

fun eol :: "mstate \<Rightarrow> mstate list" where
  \<comment> \<open>\<^verbatim>\<open>$\<close>: the end of the text, or just before the newline that ends it\<close>
  "eol (p, [], g) = [(p, [], g)]"
| "eol (p, [c], g) = keep (c = CHR 0x0A) (p, [c], g)"
| "eol (p, c # d # s, g) = []"

fun close_group :: "nat \<Rightarrow> mstate \<Rightarrow> mstate \<Rightarrow> mstate" where
  "close_group n (p, s, g) (p', s', g') = (p', s', (n, take (nat (p' - p)) s) # g')"

fun stop :: "nat \<Rightarrow> mstate \<Rightarrow> mstate list" where
  \<comment> \<open>a repetition may end once its lower bound is met\<close>
  "stop 0 st = [st]"
| "stop (Suc lo) st = []"

fun join :: "bool \<Rightarrow> mstate list \<Rightarrow> mstate list \<Rightarrow> mstate list" where
  \<comment> \<open>a greedy repetition tries another turn first, a lazy one tries to end first\<close>
  "join True more ended = more @ ended"
| "join False more ended = ended @ more"

fun tag :: "int \<Rightarrow> mstate \<Rightarrow> bool \<times> mstate" where
  \<comment> \<open>whether a turn that started at \<open>p\<close> has consumed a character\<close>
  "tag p st = (p < fst st, st)"

fun rep_ms :: "(mstate \<Rightarrow> mstate list) \<Rightarrow> bool \<Rightarrow> string \<Rightarrow> nat \<Rightarrow> nat option
    \<Rightarrow> bool \<times> mstate \<Rightarrow> mstate list" where
  \<comment> \<open>a repetition between \<open>lo\<close> and \<open>hi\<close> times of the matcher \<open>f\<close>, from a state that
      a turn has reached; a turn must consume a character, and the third argument, the
      text at the start, bounds the turns\<close>
  "rep_ms f greedy fuel lo hi (False, st) = []"
| "rep_ms f greedy [] lo hi (True, st) = stop lo st"
| "rep_ms f greedy (c # fuel) lo (Some 0) (True, st) = stop lo st"
| "rep_ms f greedy (c # fuel) lo (Some (Suc h)) (True, st) =
     join greedy
       (concat (map (rep_ms f greedy fuel (lo - 1) (Some h)) (map (tag (fst st)) (f st))))
       (stop lo st)"
| "rep_ms f greedy (c # fuel) lo None (True, st) =
     join greedy
       (concat (map (rep_ms f greedy fuel (lo - 1) None) (map (tag (fst st)) (f st))))
       (stop lo st)"

primrec ms :: "re \<Rightarrow> mstate \<Rightarrow> mstate list" where
  "ms Eps st = [st]"
| "ms (Lit c) st = lit c st"
| "ms (Cls f) st = cls f st"
| "ms (Cat a b) st = concat (map (ms b) (ms a st))"
| "ms (Alt a b) st = ms a st @ ms b st"
| "ms (Rep greedy lo hi r) st = rep_ms (ms r) greedy (CHR 0x00 # fst (snd st)) lo hi (True, st)"
| "ms (Grp n r) st = map (close_group n st) (ms r st)"
| "ms Bol st = bol st"
| "ms Eol st = eol st"

text \<open>A match object: where the match starts and ends, and its groups.\<close>

record rmatch =
  m_start :: int
  m_end :: int
  m_groups :: "(nat \<times> string) list"

definition group :: "rmatch \<Rightarrow> nat \<Rightarrow> string" where
  "group m n = (case map_of (m_groups m) n of None \<Rightarrow> [] | Some s \<Rightarrow> s)"

fun first_match :: "int \<Rightarrow> mstate list \<Rightarrow> rmatch option" where
  "first_match p [] = None"
| "first_match p (st # sts) = Some \<lparr>m_start = p, m_end = fst st, m_groups = snd (snd st)\<rparr>"

definition match_at :: "re \<Rightarrow> int \<Rightarrow> string \<Rightarrow> rmatch option" where
  "match_at r p s = first_match p (ms r (p, s, []))"

fun search_from :: "re \<Rightarrow> int \<Rightarrow> string \<Rightarrow> rmatch option"
  and search_on :: "rmatch option \<Rightarrow> re \<Rightarrow> int \<Rightarrow> string \<Rightarrow> rmatch option" where
  \<comment> \<open>the start positions from the left; \<open>search_on\<close> moves on when there is no match\<close>
  "search_from r p [] = match_at r p []"
| "search_from r p (c # cs) = search_on (match_at r p (c # cs)) r p cs"
| "search_on (Some m) r p cs = Some m"
| "search_on None r p cs = search_from r (p + 1) cs"

definition re_search :: "re \<Rightarrow> string \<Rightarrow> rmatch option" where
  "re_search r s = search_from r 0 s"

definition re_match :: "re \<Rightarrow> string \<Rightarrow> rmatch option" where
  "re_match r s = match_at r 0 s"

fun sub_end :: "rmatch option \<Rightarrow> string \<Rightarrow> string" where
  \<comment> \<open>an empty match at the end of the text is replaced too\<close>
  "sub_end None rep = []"
| "sub_end (Some m) rep = rep"

function (sequential) sub_from :: "re \<Rightarrow> string \<Rightarrow> int \<Rightarrow> nat \<Rightarrow> string \<Rightarrow> string"
  and sub_on :: "rmatch option \<Rightarrow> re \<Rightarrow> string \<Rightarrow> int \<Rightarrow> char \<Rightarrow> string \<Rightarrow> string" where
  \<comment> \<open>the counter is the number of characters of a replaced match still to skip; an
      empty match is replaced and the character after it is kept\<close>
  "sub_from r rep p 0 [] = sub_end (match_at r p []) rep"
| "sub_from r rep p (Suc k) [] = []"
| "sub_from r rep p (Suc k) (c # cs) = sub_from r rep (p + 1) k cs"
| "sub_from r rep p 0 (c # cs) = sub_on (match_at r p (c # cs)) r rep p c cs"
| "sub_on None r rep p c cs = c # sub_from r rep (p + 1) 0 cs"
| "sub_on (Some m) r rep p c cs =
     rep @ (if m_end m = p then c # sub_from r rep (p + 1) 0 cs
            else sub_from r rep (p + 1) (nat (m_end m - p) - 1) cs)"
  by pat_completeness auto
termination
  by (relation "measure (\<lambda>x. case x of Inl (r, rep, p, k, s) \<Rightarrow> 2 * length s + 1
                                   | Inr (m, r, rep, p, c, s) \<Rightarrow> 2 * length s + 2)") auto

definition re_sub :: "re \<Rightarrow> string \<Rightarrow> string \<Rightarrow> string" where
  \<comment> \<open>\<^verbatim>\<open>re.sub(pattern, repl, s)\<close> for a replacement without group references\<close>
  "re_sub r rep s = sub_from r rep 0 0 s"

text \<open>Abbreviations for the pattern syntax.\<close>

definition Str :: "string \<Rightarrow> re" where
  "Str s = foldr (\<lambda>c r. Cat (Lit c) r) s Eps"

definition Seq :: "re list \<Rightarrow> re" where
  "Seq rs = foldr Cat rs Eps"

definition Plus :: "re \<Rightarrow> re" where
  "Plus r = Rep True 1 None r"

definition Star :: "re \<Rightarrow> re" where
  "Star r = Rep True 0 None r"

definition Opt :: "re \<Rightarrow> re" where
  "Opt r = Rep True 0 (Some 1) r"

definition Times :: "nat \<Rightarrow> nat \<Rightarrow> re \<Rightarrow> re" where
  "Times lo hi r = Rep True lo (Some hi) r"

definition LazyPlus :: "re \<Rightarrow> re" where
  "LazyPlus r = Rep False 1 None r"

definition Dot :: re where
  "Dot = Cls (\<lambda>c. c \<noteq> CHR 0x0A)"

definition one_of :: "string \<Rightarrow> char \<Rightarrow> bool" where
  \<comment> \<open>a class that lists its characters\<close>
  "one_of s c = (c \<in> set s)"

definition D :: re where
  "D = Cls is_digit"

definition S :: re where
  "S = Cls is_space"

section \<open>Numbers and dates of the Python library\<close>

text \<open>
  A Python \<^verbatim>\<open>float\<close> is modelled as a real number and \<^verbatim>\<open>float(s)\<close> as the exact
  decimal value of \<open>s\<close>: rounding to the nearest double, infinities and NaN are left out.
  \<open>py_float\<close> reads the strings that \<open>extract_amount\<close> passes to it, which hold
  decimal digits and points only: digits with at most one point among them, and at
  least one digit. Any other string of that alphabet raises \<^verbatim>\<open>ValueError\<close>, the value
  \<open>None\<close> here.
\<close>

definition digit_val :: "char \<Rightarrow> int" where
  "digit_val c = code c - 48"

definition int_of_digits :: "string \<Rightarrow> int" where
  \<comment> \<open>\<^verbatim>\<open>int(s)\<close> for a string of decimal digits\<close>
  "int_of_digits s = foldl (\<lambda>n c. 10 * n + digit_val c) 0 s"

definition py_float :: "string \<Rightarrow> real option" where
  "py_float s =
     (let ip = takeWhile is_digit s; r = dropWhile is_digit s in
      case r of
        [] \<Rightarrow> if ip = [] then None else Some (of_int (int_of_digits ip))
      | c # fr \<Rightarrow>
          if c = CHR ''.'' \<and> list_all is_digit fr \<and> (ip \<noteq> [] \<or> fr \<noteq> [])
          then Some (of_int (int_of_digits ip) + of_int (int_of_digits fr) / 10 ^ length fr)
          else None)"

text \<open>
  The value of \<^verbatim>\<open>datetime.strptime\<close> for the formats of this repository: a calendar date
  at midnight, so the record holds the date only.
\<close>

record datetime =
  dt_year :: int
  dt_month :: int
  dt_day :: int

definition is_leap :: "int \<Rightarrow> bool" where
  "is_leap y = (y mod 4 = 0 \<and> (y mod 100 \<noteq> 0 \<or> y mod 400 = 0))"

definition days_in_month :: "int \<Rightarrow> int \<Rightarrow> int" where
  "days_in_month y m =
     (if m = 2 then (if is_leap y then 29 else 28)
      else if m = 4 \<or> m = 6 \<or> m = 9 \<or> m = 11 then 30 else 31)"

definition make_datetime :: "int \<Rightarrow> int \<Rightarrow> int \<Rightarrow> datetime option" where
  \<comment> \<open>the constructor raises \<^verbatim>\<open>ValueError\<close> outside the calendar\<close>
  "make_datetime y m d =
     (if 1 \<le> y \<and> y \<le> 9999 \<and> 1 \<le> m \<and> m \<le> 12 \<and> 1 \<le> d \<and> d \<le> days_in_month y m
      then Some \<lparr>dt_year = y, dt_month = m, dt_day = d\<rparr> else None)"

text \<open>
  \<^verbatim>\<open>strptime\<close> as CPython's \<^verbatim>\<open>_strptime\<close> has it: the format becomes a pattern, matched at
  the start of the text without regard to case; the match must reach the end of the
  text. The month names are those of the C locale (the program sets no locale). The
  directives are the ones the formats of this repository use; another directive is
  read as a bad one.
\<close>

definition LitI :: "char \<Rightarrow> re" where
  \<comment> \<open>a character of the format, under \<^verbatim>\<open>IGNORECASE\<close>\<close>
  "LitI c = Cls (\<lambda>x. py_lower x = py_lower c)"

definition StrI :: "string \<Rightarrow> re" where
  "StrI s = foldr (\<lambda>c r. Cat (LitI c) r) s Eps"

definition Alts :: "re list \<Rightarrow> re" where
  "Alts rs = foldr Alt (butlast rs) (last rs)"

definition range_cls :: "char \<Rightarrow> char \<Rightarrow> re" where
  "range_cls a b = Cls (\<lambda>c. code a \<le> code c \<and> code c \<le> code b)"

definition a_month :: "string list" where
  "a_month = [''jan'', ''feb'', ''mar'', ''apr'', ''may'', ''jun'',
              ''jul'', ''aug'', ''sep'', ''oct'', ''nov'', ''dec'']"

definition f_month :: "string list" where
  "f_month = [''january'', ''february'', ''march'', ''april'', ''may'', ''june'',
              ''july'', ''august'', ''september'', ''october'', ''november'', ''december'']"

definition seqToRE :: "string list \<Rightarrow> re" where
  \<comment> \<open>the names from the longest to the shortest\<close>
  "seqToRE to_convert = Alts (map StrI (rev (sort_key length to_convert)))"

definition directive_re :: "char \<Rightarrow> re option" where
  "directive_re d =
     (if d = CHR ''d'' then
        Some (Grp 1 (Alts [Seq [Lit (CHR ''3''), range_cls (CHR ''0'') (CHR ''1'')],
                           Seq [range_cls (CHR ''1'') (CHR ''2''), D],
                           Seq [Lit (CHR ''0''), range_cls (CHR ''1'') (CHR ''9'')],
                           range_cls (CHR ''1'') (CHR ''9''),
                           Seq [Lit (CHR '' ''), range_cls (CHR ''1'') (CHR ''9'')]]))
      else if d = CHR ''m'' then
        Some (Grp 2 (Alts [Seq [Lit (CHR ''1''), range_cls (CHR ''0'') (CHR ''2'')],
                           Seq [Lit (CHR ''0''), range_cls (CHR ''1'') (CHR ''9'')],
                           range_cls (CHR ''1'') (CHR ''9'')]))
      else if d = CHR ''Y'' then Some (Grp 3 (Seq [D, D, D, D]))
      else if d = CHR ''b'' then Some (Grp 4 (seqToRE a_month))
      else if d = CHR ''B'' then Some (Grp 5 (seqToRE f_month))
      else None)"

fun format_pattern :: "string \<Rightarrow> re option" where
  \<comment> \<open>a run of whitespace in the format stands for \<^verbatim>\<open>\s+\<close>\<close>
  "format_pattern [] = Some Eps"
| "format_pattern [c] =
     (if c = CHR ''%'' then None
      else Some (if is_space c then Plus S else LitI c))"
| "format_pattern (c # d # cs) =
     (if c = CHR ''%'' then
        (case directive_re d of None \<Rightarrow> None
         | Some r \<Rightarrow> map_option (Cat r) (format_pattern cs))
      else if is_space c then
        (if is_space d then format_pattern (d # cs)
         else map_option (Cat (Plus S)) (format_pattern (d # cs)))
      else map_option (Cat (LitI c)) (format_pattern (d # cs)))"

definition index_of :: "string \<Rightarrow> string list \<Rightarrow> int" where
  \<comment> \<open>\<^verbatim>\<open>xs.index(x)\<close> for an element of the list\<close>
  "index_of x xs = int (length (takeWhile (\<lambda>y. y \<noteq> x) xs))"

definition strptime :: "string \<Rightarrow> string \<Rightarrow> datetime option" where
  "strptime data_string fmt =
     (case format_pattern fmt of None \<Rightarrow> None
      | Some r \<Rightarrow>
         (case re_match r data_string of None \<Rightarrow> None
          | Some found \<Rightarrow>
              if int (length data_string) \<noteq> m_end found then None
              else
                let gs = map_of (m_groups found);
                    y = (case gs 3 of None \<Rightarrow> 1900 | Some v \<Rightarrow> int_of_digits v);
                    m0 = (case gs 2 of None \<Rightarrow> 1 | Some v \<Rightarrow> int_of_digits v);
                    m1 = (case gs 5 of None \<Rightarrow> m0 | Some v \<Rightarrow> index_of (lower v) f_month + 1);
                    m = (case gs 4 of None \<Rightarrow> m1 | Some v \<Rightarrow> index_of (lower v) a_month + 1);
                    d = (case gs 1 of None \<Rightarrow> 1 | Some v \<Rightarrow> int_of_digits (strip v))
                in make_datetime y m d))"

section \<open>config.py\<close>

definition DATE_FORMATS :: "string list" where
  "DATE_FORMATS = [''%d/%m/%Y'', ''%d-%m-%Y'', ''%d %b %Y'', ''%d %B %Y'', ''%Y-%m-%d'']"

definition MESES_ES :: "(string \<times> string) list" where
  \<comment> \<open>the dictionary in the order of its entries, which is the order a loop visits them\<close>
  "MESES_ES =
     [(''ene'', ''jan''), (''enero'', ''january''),
      (''feb'', ''feb''), (''febrero'', ''february''),
      (''mar'', ''mar''), (''marzo'', ''march''),
      (''abr'', ''apr''), (''abril'', ''april''),
      (''may'', ''may''), (''mayo'', ''may''),
      (''jun'', ''jun''), (''junio'', ''june''),
      (''jul'', ''jul''), (''julio'', ''july''),
      (''ago'', ''aug''), (''agosto'', ''august''),
      (''sep'', ''sep''), (''septiembre'', ''september''),
      (''oct'', ''oct''), (''octubre'', ''october''),
      (''nov'', ''nov''), (''noviembre'', ''november''),
      (''dic'', ''dec''), (''diciembre'', ''december'')]"

record bank_config =
  processor :: string
  date_format :: string
  saldo_patterns :: "re list"
  cargos_patterns :: "re list"

definition patagonia_config :: bank_config where
  \<comment> \<open>\<^verbatim>\<open>BANK_CONFIGS["Patagonia"]\<close>, the keys that the extractor and the date parser read\<close>
  "patagonia_config =
     \<lparr>processor = ''patagonia'',
      date_format = ''%d %b. %Y'',
      saldo_patterns =
        [Seq [Str ''SALDO'', Plus S, Str ''ANTERIOR''],
         Seq [Str ''SU'', Plus S, Str ''PAGO'', Plus S, Str ''EN'', Plus S, Str ''PESOS'']],
      cargos_patterns =
        [Seq [Str ''COMIS.'', Plus S, Str ''PROD.'', Plus S, Str ''PAT''],
         Seq [Str ''IVA'', Plus S, Lit (CHR ''$''), Plus S, Str ''21''],
         Seq [Str ''INTERESES'', Plus S, Str ''FINANCIACION''],
         Seq [Str ''IMP'', Plus S, Str ''DE'', Plus S, Str ''SELLOS'']]\<rparr>"

section \<open>utils.py\<close>

definition normalize_spanish_month :: "string \<Rightarrow> string" where
  "normalize_spanish_month text =
     foldl (\<lambda>text_lower (es_month, en_month). replace text_lower es_month en_month)
       (lower text) MESES_ES"

fun try_formats :: "string \<Rightarrow> string list \<Rightarrow> datetime option" where
  \<comment> \<open>the loop over the formats: a \<^verbatim>\<open>ValueError\<close> moves on to the next one\<close>
  "try_formats date_str [] = None"
| "try_formats date_str (fmt # fmts) =
     (case strptime date_str fmt of None \<Rightarrow> try_formats date_str fmts | Some d \<Rightarrow> Some d)"

definition parse_date :: "string \<Rightarrow> string list option \<Rightarrow> datetime option" where
  \<comment> \<open>the second argument is \<open>None\<close> when the caller leaves \<^verbatim>\<open>formats\<close> out\<close>
  "parse_date date_str formats =
     (if date_str = [] then None
      else if strip date_str = [] then None
      else
        let formats_to_try = (case formats of None \<Rightarrow> DATE_FORMATS
                               | Some fs \<Rightarrow> if fs = [] then DATE_FORMATS else fs)
        in try_formats (normalize_spanish_month (strip date_str)) formats_to_try)"

definition extract_amount :: "string \<Rightarrow> real option" where
  "extract_amount amount_str =
     (if amount_str = [] then None
      else
        let stripped = strip amount_str;
            is_negative = endswith stripped ''-'';
            unsigned = (if is_negative then strip (butlast stripped) else stripped);
            cleaned = re_sub (Cls (\<lambda>c. \<not> (is_digit c \<or> one_of ''.,'' c))) [] unsigned
        in
          if cleaned = [] then None
          else
            let normal =
              (if CHR ''.'' \<in> set cleaned \<and> CHR '','' \<in> set cleaned then
                 replace (replace cleaned ''.'' []) '','' ''.''
               else if CHR '','' \<in> set cleaned then
                 (let parts = split_on (CHR '','') cleaned in
                  if length parts = 2 \<and> length (parts ! 1) \<le> 2
                  then replace cleaned '','' ''.''
                  else replace cleaned '','' [])
               else if CHR ''.'' \<in> set cleaned then
                 (let parts = split_on (CHR ''.'') cleaned in
                  if length parts = 2 \<and> length (parts ! 1) \<le> 2 \<and> length (parts ! 0) \<le> 3
                  then cleaned
                  else replace cleaned ''.'' [])
               else cleaned)
            in (case py_float normal of None \<Rightarrow> None
                | Some amount \<Rightarrow> Some (if is_negative then - amount else amount)))"

definition cuota_suffix_re :: re where
  \<comment> \<open>\<^verbatim>\<open>\s+Cuota\s+\d+/\d+\s*$\<close>\<close>
  "cuota_suffix_re =
     Seq [Plus S, Str ''Cuota'', Plus S, Plus D, Lit (CHR ''/''), Plus D, Star S, Eol]"

definition keep_char :: "char \<Rightarrow> bool" where
  \<comment> \<open>the characters that the class \<^verbatim>\<open>[^\w\s\-\.\/*$%]\<close> excludes\<close>
  "keep_char c = (is_word c \<or> is_space c \<or> one_of ''-./*$%'' c)"

definition clean_description :: "string \<Rightarrow> string" where
  "clean_description text =
     (if text = [] then []
      else
        let t1 = re_sub (Plus S) '' '' (strip text);
            t2 = re_sub cuota_suffix_re [] t1;
            t3 = re_sub (Cls (\<lambda>c. \<not> keep_char c)) '' '' t2;
            t4 = re_sub (Plus S) '' '' (strip t3)
        in strip t4)"

section \<open>extractors/base.py\<close>

text \<open>
  A movement is a dictionary with fixed keys. The keys \<^verbatim>\<open>titular\<close>, \<^verbatim>\<open>archivo_origen\<close> and
  \<^verbatim>\<open>banco\<close> are added after parsing; \<open>None\<close> says that the key is absent.
\<close>

record movement =
  fecha :: "datetime option"
  comprobante :: string
  descripcion :: string
  importe :: real
  cuota :: string
  moneda :: string
  titular :: "string option"
  archivo_origen :: "string option"
  banco :: "string option"

text \<open>
  The document reader is a collaborator: opening the file raises or gives the pages, and
  the text of a page raises or gives a string.
\<close>

datatype py_error = ReaderError

type_synonym page = "py_error + string"

type_synonym pdf_file = "py_error + page list"

definition extract_pages_from_pdf :: "pdf_file \<Rightarrow> page list" where
  \<comment> \<open>an exception while opening is logged and the result is the empty list\<close>
  "extract_pages_from_pdf pdf = (case pdf of Inl e \<Rightarrow> [] | Inr pages \<Rightarrow> pages)"

fun extract_text_from_pages :: "page list \<Rightarrow> string \<Rightarrow> py_error + string" where
  \<comment> \<open>the second argument is \<^verbatim>\<open>full_text\<close> so far\<close>
  "extract_text_from_pages [] full_text = Inr full_text"
| "extract_text_from_pages (pg # pages) full_text =
     (case pg of Inl e \<Rightarrow> Inl e
      | Inr page_text \<Rightarrow>
          extract_text_from_pages pages
            (if page_text \<noteq> [] then full_text @ page_text else full_text))"

definition extract_titular_info :: "string \<Rightarrow> string option" where
  \<comment> \<open>the pattern is \<^verbatim>\<open>Total\s+Consumos\s+de\s+(.+?)\s+([\d.,]+)\<close>\<close>
  "extract_titular_info line =
     (if str_in ''Total Consumos de'' line \<and> str_in ''Tarjeta'' line then
        (case re_search
                (Seq [Str ''Total'', Plus S, Str ''Consumos'', Plus S, Str ''de'', Plus S,
                      Grp 1 (LazyPlus Dot), Plus S,
                      Grp 2 (Plus (Cls (\<lambda>c. is_digit c \<or> one_of ''.,'' c)))]) line of
           None \<Rightarrow> None
         | Some nombre_match \<Rightarrow> Some (strip (group nombre_match 1)))
      else None)"

definition monto_pattern :: re where
  \<comment> \<open>\<^verbatim>\<open>[\d]{1,3}(?:\.[\d]{3})*(?:,[\d]{2})?\-?\<close>\<close>
  "monto_pattern =
     Seq [Times 1 3 D, Star (Seq [Lit (CHR ''.''), Times 3 3 D]),
          Opt (Seq [Lit (CHR '',''), Times 2 2 D]), Opt (Lit (CHR ''-''))]"

definition looks_like_movement :: "string \<Rightarrow> bool" where
  \<comment> \<open>the pattern is \<^verbatim>\<open>(M(?:\s+(?:M|_))?)\s*_?\s*$\<close> with \<^verbatim>\<open>M\<close> the pattern of an amount\<close>
  "looks_like_movement line =
     (let line_len = length line in
      if line_len < 103 \<or> line_len > 124 then False
      else re_search
             (Seq [Grp 1 (Seq [monto_pattern,
                               Opt (Seq [Plus S, Alt monto_pattern (Lit (CHR ''_''))])]),
                   Star S, Opt (Lit (CHR ''_'')), Star S, Eol]) line \<noteq> None)"

definition min_amount_pos :: nat where
  "min_amount_pos = 80"

definition monto_doble_re :: re where
  \<comment> \<open>\<^verbatim>\<open>([\d.,]+\-?)\s+([\d.,_]+\-?)\s*_?\s*$\<close>\<close>
  "monto_doble_re =
     Seq [Grp 1 (Seq [Plus (Cls (\<lambda>c. is_digit c \<or> one_of ''.,'' c)), Opt (Lit (CHR ''-''))]),
          Plus S,
          Grp 2 (Seq [Plus (Cls (\<lambda>c. is_digit c \<or> one_of ''.,_'' c)), Opt (Lit (CHR ''-''))]),
          Star S, Opt (Lit (CHR ''_'')), Star S, Eol]"

definition monto_simple_re :: re where
  \<comment> \<open>\<^verbatim>\<open>([.\d,\-]+)\s*$\<close>\<close>
  "monto_simple_re =
     Seq [Grp 1 (Plus (Cls (\<lambda>c. is_digit c \<or> one_of ''.,-'' c))), Star S, Eol]"

definition monto_format_re :: re where
  \<comment> \<open>\<^verbatim>\<open>^\d{1,3}(?:\.\d{3})*(?:,\d{2})?$\<close>\<close>
  "monto_format_re =
     Seq [Bol, Times 1 3 D, Star (Seq [Lit (CHR ''.''), Times 3 3 D]),
          Opt (Seq [Lit (CHR '',''), Times 2 2 D]), Eol]"

definition cuota_re :: re where
  \<comment> \<open>\<^verbatim>\<open>\s+(?:Cuota\s+)?(\d{2}/\d{2})\s*$\<close>\<close>
  "cuota_re =
     Seq [Plus S, Opt (Seq [Str ''Cuota'', Plus S]),
          Grp 1 (Seq [Times 2 2 D, Lit (CHR ''/''), Times 2 2 D]), Star S, Eol]"

definition comprobante_re :: re where
  \<comment> \<open>\<^verbatim>\<open>^(\w+\*?[KX]?)\<close>\<close>
  "comprobante_re =
     Seq [Bol, Grp 1 (Seq [Plus (Cls is_word), Opt (Lit (CHR ''*'')), Opt (Cls (one_of ''KX''))])]"

definition fecha_re :: re where
  \<comment> \<open>\<^verbatim>\<open>^(\d{2}\.\d{2}\.\d{2})$\<close>\<close>
  "fecha_re =
     Seq [Bol, Grp 1 (Seq [Times 2 2 D, Lit (CHR ''.''), Times 2 2 D, Lit (CHR ''.''), Times 2 2 D]),
          Eol]"

definition parse_columns :: "string \<Rightarrow> string \<Rightarrow> int \<Rightarrow> movement list" where
  \<comment> \<open>\<open>parse_by_fixed_positions\<close> from the amount found on: the sign, the shape of the
      amount, then the columns from the right to the left\<close>
  "parse_columns original_line monto_raw monto_start_pos =
     (let is_negative = endswith monto_raw ''-'';
          monto_unsigned = (if is_negative then butlast monto_raw else monto_raw);
          monto_clean = re_sub (Cls (\<lambda>c. \<not> (is_digit c \<or> one_of '',.'' c))) [] monto_unsigned
      in
        if re_match monto_format_re monto_clean = None then []
        else
          let monto_str = monto_clean @ (if is_negative then ''-'' else []);
              line1 = rstrip (take (nat monto_start_pos) original_line);
              cuota_match = re_search cuota_re line1;
              cuota_found = (case cuota_match of None \<Rightarrow> [] | Some m \<Rightarrow> group m 1);
              line2 = (case cuota_match of None \<Rightarrow> line1
                       | Some m \<Rightarrow> rstrip (take (nat (m_start m)) line1));
              descripcion_col = (if length line2 > 31 then strip (drop 31 line2) else []);
              line3 = (if length line2 > 31 then rstrip (take 31 line2) else line2);
              comprobante_found =
                (if length line3 > 20 then
                   (let comprobante_substring = strip (drop 20 line3) in
                    if comprobante_substring \<noteq> [] then
                      (case re_match comprobante_re comprobante_substring of
                         None \<Rightarrow> [] | Some m \<Rightarrow> group m 1)
                    else [])
                 else []);
              line4 = (if length line3 > 20 then rstrip (take 20 line3) else line3);
              fecha_final =
                (if length line4 \<ge> 15 then
                   (case re_match fecha_re (strip (take 8 (drop 7 line4))) of
                      None \<Rightarrow> None
                    | Some fecha_match \<Rightarrow>
                        (case split_on (CHR ''.'') (group fecha_match 1) of
                           [dd, mm, yy] \<Rightarrow>
                             parse_date
                               (dd @ ''/'' @ mm @ ''/'' @ (if length yy = 2 then ''20'' @ yy else yy))
                               (Some [''%d/%m/%Y''])
                         | _ \<Rightarrow> None))
                 else None);
              descripcion_stripped = (if descripcion_col \<noteq> [] then strip descripcion_col else []);
              descripcion_raw =
                (if descripcion_stripped = [] then strip (take (nat monto_start_pos) original_line)
                 else descripcion_stripped);
              descripcion_final = clean_description descripcion_raw;
              importe_final = extract_amount monto_str
          in
            (case importe_final of
               None \<Rightarrow> []
             | Some amount \<Rightarrow>
                 if descripcion_final \<noteq> [] then
                   [\<lparr>fecha = fecha_final, comprobante = comprobante_found,
                     descripcion = descripcion_final, importe = amount,
                     cuota = cuota_found, moneda = ''ARS'',
                     titular = None, archivo_origen = None, banco = None\<rparr>]
                 else []))"

definition parse_by_fixed_positions :: "string \<Rightarrow> movement list" where
  "parse_by_fixed_positions line =
     (if line = [] \<or> length (strip line) < 10 then []
      else
        let monto_doble_match = re_search monto_doble_re (drop min_amount_pos line);
            monto_simple_match = re_search monto_simple_re (drop min_amount_pos line)
        in
          (case monto_doble_match of
             Some m \<Rightarrow> parse_columns line (group m 1) (int min_amount_pos + m_start m)
           | None \<Rightarrow>
               (case monto_simple_match of
                  Some m \<Rightarrow> parse_columns line (group m 1) (int min_amount_pos + m_start m)
                | None \<Rightarrow> [])))"

definition pseudo_movement :: "string \<Rightarrow> movement" where
  "pseudo_movement titular_nombre =
     \<lparr>fecha = None, comprobante = [], descripcion = [], importe = 0, cuota = [], moneda = [],
      titular = Some titular_nombre, archivo_origen = None, banco = None\<rparr>"

definition is_header :: "string \<Rightarrow> bool" where
  "is_header line = (str_in ''FECHA'' line \<and> str_in ''COMPROBANTE'' line \<and> str_in ''DETALLE'' line)"

definition is_section_end :: "string \<Rightarrow> bool" where
  "is_section_end line =
     (str_in ''DEBITAREMOS DE SU'' line \<or> str_in ''Plan V:'' line \<or> str_in ''CFTEA'' line \<or>
      str_in ''Condiciones vigentes'' line \<or> str_in ''Estimado Cliente'' line)"

definition scan_line :: "bool \<times> movement list \<Rightarrow> string \<Rightarrow> bool \<times> movement list" where
  \<comment> \<open>one turn of the loop over the lines; the state is \<^verbatim>\<open>in_movement_section\<close> and
      \<^verbatim>\<open>movements\<close>\<close>
  "scan_line st line =
     (let in_movement_section = fst st; movements = snd st in
      if strip line = [] then st
      else if \<not> in_movement_section then (is_header line, movements)
      else if is_section_end line then (False, movements)
      else
        (case extract_titular_info line of
           Some titular_nombre \<Rightarrow>
             if titular_nombre \<noteq> [] then (True, movements @ [pseudo_movement titular_nombre])
             else if looks_like_movement line
             then (True, movements @ parse_by_fixed_positions line)
             else st
         | None \<Rightarrow>
             if looks_like_movement line
             then (True, movements @ parse_by_fixed_positions line)
             else st))"

definition scan_lines :: "string list \<Rightarrow> bool \<times> movement list" where
  "scan_lines lines = foldl scan_line (False, []) lines"

definition extract_movements_from_text :: "string \<Rightarrow> movement list" where
  "extract_movements_from_text text = snd (scan_lines (split_on (CHR 0x0A) text))"

definition extract_movements_from_file :: "pdf_file \<Rightarrow> py_error + movement list" where
  \<comment> \<open>\<open>TextBasedExtractor\<close>\<close>
  "extract_movements_from_file pdf =
     (let pages = extract_pages_from_pdf pdf in
      if pages = [] then Inr []
      else
        (case extract_text_from_pages pages [] of
           Inl e \<Rightarrow> Inl e
         | Inr full_text \<Rightarrow> Inr (extract_movements_from_text full_text)))"

definition extract_movements :: "bank_config \<Rightarrow> string \<Rightarrow> pdf_file \<Rightarrow> py_error + movement list" where
  \<comment> \<open>the second argument is the name of the file\<close>
  "extract_movements config name pdf =
     (case extract_movements_from_file pdf of
        Inl e \<Rightarrow> Inl e
      | Inr movements \<Rightarrow>
          Inr (map (\<lambda>movement. movement\<lparr>archivo_origen := Some name,
                                          banco := Some (title (processor config))\<rparr>) movements))"

section \<open>extractors/patagonia.py\<close>

record resumen_info =
  saldo_anterior :: real
  cargos_bancarios :: real
  saldo_actual :: "real option"
  pago_minimo :: "real option"
  total_consumos :: real
  bonificaciones :: real
  saldo_calculado :: real
  diferencia_validacion :: "real option"
  validacion_ok :: "bool option"

text \<open>The extractor object: its configuration and the summary of its last statement.\<close>

record extractor =
  config :: bank_config
  last_resumen_info :: "resumen_info option"

definition del_at :: "nat \<Rightarrow> 'a list \<Rightarrow> 'a list" where
  \<comment> \<open>\<^verbatim>\<open>del movements[i]\<close> for an index of the list\<close>
  "del_at i xs = take i xs @ drop (Suc i) xs"

definition delete_indices :: "nat list \<Rightarrow> 'a list \<Rightarrow> 'a list" where
  \<comment> \<open>\<^verbatim>\<open>for i in reversed(indices): del movements[i]\<close>\<close>
  "delete_indices indices movements = foldl (\<lambda>ms i. del_at i ms) movements (rev indices)"

definition matches_any :: "re list \<Rightarrow> string \<Rightarrow> bool" where
  \<comment> \<open>the loop over the patterns, which stops at the first one found\<close>
  "matches_any patterns s = list_ex (\<lambda>pattern. re_search pattern s \<noteq> None) patterns"

fun sum_matching :: "re list \<Rightarrow> nat \<Rightarrow> movement list \<Rightarrow> real \<times> nat list \<Rightarrow> real \<times> nat list" where
  \<comment> \<open>the loop over \<^verbatim>\<open>enumerate(movements)\<close> from the index \<open>i\<close> on; the state is the
      total and \<^verbatim>\<open>indices_a_eliminar\<close>\<close>
  "sum_matching patterns i [] acc = acc"
| "sum_matching patterns i (mov # movs) acc =
     sum_matching patterns (Suc i) movs
       (if matches_any patterns (upper (descripcion mov))
        then (fst acc + importe mov, snd acc @ [i]) else acc)"

definition extract_saldo_anterior :: "bank_config \<Rightarrow> movement list \<Rightarrow> real \<times> movement list" where
  "extract_saldo_anterior cfg movements =
     (let found = sum_matching (saldo_patterns cfg) 0 movements (0, [])
      in (fst found, delete_indices (snd found) movements))"

definition extract_cargos_bancarios :: "bank_config \<Rightarrow> movement list \<Rightarrow> real \<times> movement list" where
  "extract_cargos_bancarios cfg movements =
     (let found = sum_matching (cargos_patterns cfg) 0 movements (0, [])
      in (fst found, delete_indices (snd found) movements))"

fun find_saldos :: "nat \<Rightarrow> movement list \<Rightarrow> real option \<times> real option \<times> nat list
    \<Rightarrow> real option \<times> real option \<times> nat list" where
  \<comment> \<open>the state is \<^verbatim>\<open>saldo_actual\<close>, \<^verbatim>\<open>pago_minimo\<close> and \<^verbatim>\<open>saldo_movements\<close>\<close>
  "find_saldos i [] st = st"
| "find_saldos i (mov # movs) st =
     find_saldos (Suc i) movs
       (if str_in ''SALDO ACTUAL'' (descripcion mov)
        then (Some (importe mov), fst (snd st), snd (snd st) @ [i])
        else if str_in ''PAGO MINIMO'' (descripcion mov)
        then (fst st, Some (importe mov), snd (snd st) @ [i])
        else st)"

definition get_titular :: "movement \<Rightarrow> string" where
  \<comment> \<open>\<^verbatim>\<open>mov.get('titular')\<close>: an absent key and the empty string both count as false\<close>
  "get_titular mov = (case titular mov of None \<Rightarrow> [] | Some t \<Rightarrow> t)"

record titular_data =
  nombre :: string
  primer_movimiento :: nat
  ultimo_movimiento :: nat

fun primera_pasada :: "nat \<Rightarrow> movement list \<Rightarrow> titular_data list \<times> nat \<times> nat list \<times> nat
    \<Rightarrow> titular_data list \<times> nat \<times> nat list \<times> nat" where
  \<comment> \<open>the state is \<^verbatim>\<open>titulares_data\<close>, \<^verbatim>\<open>primer_movimiento\<close>, \<^verbatim>\<open>movements_to_remove\<close>
      and \<^verbatim>\<open>ultimo_movimiento\<close>\<close>
  "primera_pasada i [] st = st"
| "primera_pasada i (mov # movs) (titulares_data, primer, movements_to_remove, ultimo) =
     (let closes = (get_titular mov \<noteq> [] \<and> primer < i);
          titulares_data1 =
            (if closes
             then titulares_data @
                    [\<lparr>nombre = get_titular mov, primer_movimiento = primer,
                      ultimo_movimiento = i - 1\<rparr>]
             else titulares_data);
          ultimo1 = (if closes then i - 1 else ultimo);
          primer1 = (if closes then i + 1 else primer);
          movements_to_remove1 =
            (if get_titular mov \<noteq> [] then movements_to_remove @ [i] else movements_to_remove);
          primer2 = (if get_titular mov \<noteq> [] \<and> primer1 = i then i + 1 else primer1)
      in primera_pasada (Suc i) movs (titulares_data1, primer2, movements_to_remove1, ultimo1))"

definition assign_range :: "movement list \<Rightarrow> titular_data \<Rightarrow> movement list" where
  "assign_range movements td =
     foldl (\<lambda>ms i. ms[i := (ms ! i)\<lparr>titular := Some (nombre td)\<rparr>]) movements
       [max 0 (primer_movimiento td) ..< min (length movements) (ultimo_movimiento td + 1)]"

definition assign_titular_to_movements_advanced :: "movement list \<Rightarrow> movement list" where
  "assign_titular_to_movements_advanced movements =
     (let st = primera_pasada 0 movements ([], 0, [], 0);
          titulares_data = fst st;
          movements_to_remove = fst (snd (snd st));
          cleared = map (\<lambda>mov. mov\<lparr>titular := Some []\<rparr>) movements;
          assigned = foldl assign_range cleared titulares_data
      in delete_indices movements_to_remove assigned)"

definition procesar_movimientos :: "bank_config \<Rightarrow> movement list \<Rightarrow> movement list \<times> resumen_info" where
  \<comment> \<open>\<open>PatagoniaExtractor.extract\<close> from the comment \<^verbatim>\<open>Procesar movimientos extraidos\<close> on:
      the movements it returns and \<^verbatim>\<open>resumen_info\<close>\<close>
  "procesar_movimientos cfg movements =
     (let saldo = extract_saldo_anterior cfg movements;
          cargos = extract_cargos_bancarios cfg (snd saldo);
          saldos = find_saldos 0 (snd cargos) (None, None, []);
          remaining = delete_indices (snd (snd saldos)) (snd cargos);
          final = assign_titular_to_movements_advanced remaining;
          consumos = sum_list (map importe (filter (\<lambda>mov. importe mov > 0) final));
          bonif = sum_list (map importe (filter (\<lambda>mov. importe mov < 0) final));
          calculado = fst saldo + consumos + bonif + fst cargos
      in (final,
          \<lparr>saldo_anterior = fst saldo,
           cargos_bancarios = fst cargos,
           saldo_actual = fst saldos,
           pago_minimo = fst (snd saldos),
           total_consumos = consumos,
           bonificaciones = bonif,
           saldo_calculado = calculado,
           diferencia_validacion =
             (case fst saldos of None \<Rightarrow> None
              | Some actual \<Rightarrow> Some \<bar>calculado - actual\<bar>),
           validacion_ok =
             (case fst saldos of None \<Rightarrow> None
              | Some actual \<Rightarrow> Some (\<bar>calculado - actual\<bar> \<le> 1))\<rparr>))"

definition patagonia_extract :: "extractor \<Rightarrow> string \<Rightarrow> pdf_file
    \<Rightarrow> py_error + movement list \<times> extractor" where
  \<comment> \<open>\<open>PatagoniaExtractor.extract\<close>: the movements it returns and the extractor
      afterwards, whose \<^verbatim>\<open>last_resumen_info\<close> is set unless there is no movement\<close>
  "patagonia_extract self name pdf =
     (case extract_movements (config self) name pdf of
        Inl e \<Rightarrow> Inl e
      | Inr movements \<Rightarrow>
          if movements = [] then Inr (movements, self)
          else
            let processed = procesar_movimientos (config self) movements
            in Inr (fst processed, self\<lparr>last_resumen_info := Some (snd processed)\<rparr>))"

section \<open>Specification-level functions and sample data\<close>

text \<open>
  The functions of this section come from no source function: the theorems below state
  what the loops of the source compute in their terms.
\<close>

fun idxs :: "bool list \<Rightarrow> nat \<Rightarrow> nat list" where
  \<comment> \<open>the positions of the flags that are set, counted from \<open>i\<close>\<close>
  "idxs [] i = []"
| "idxs (f # fs) i = (if f then i # idxs fs (Suc i) else idxs fs (Suc i))"

definition is_saldo :: "bank_config \<Rightarrow> movement \<Rightarrow> bool" where
  \<comment> \<open>the description, in capitals, holds a match of a balance pattern\<close>
  "is_saldo cfg mov = matches_any (saldo_patterns cfg) (upper (descripcion mov))"

definition is_cargo :: "bank_config \<Rightarrow> movement \<Rightarrow> bool" where
  \<comment> \<open>the description, in capitals, holds a match of a bank charge pattern\<close>
  "is_cargo cfg mov = matches_any (cargos_patterns cfg) (upper (descripcion mov))"

definition monto_str_of :: "string \<Rightarrow> string" where
  \<comment> \<open>the text of the amount that the line parser converts, from the token it found:
      the digits, points and commas of the token, and its trailing sign\<close>
  "monto_str_of monto_raw =
     (let is_negative = endswith monto_raw ''-'';
          monto_unsigned = (if is_negative then butlast monto_raw else monto_raw);
          monto_clean = re_sub (Cls (\<lambda>c. \<not> (is_digit c \<or> one_of '',.'' c))) [] monto_unsigned
      in monto_clean @ (if is_negative then ''-'' else []))"

text \<open>The lines of a small statement, in the fixed columns of the bank.\<close>

definition line_header :: string where
  "line_header =
     ''       FECHA        COMPROBANTE DETALLE DE TRANSACCION                         PESOS''"

definition line_saldo_anterior :: string where
  "line_saldo_anterior =
     ''                               SALDO ANTERIOR                                                         1.000,00''"

definition line_iva :: string where
  "line_iva =
     ''                               IVA $ 21                                                                  25,00''"

definition line_compra :: string where
  "line_compra =
     ''       16.01.25     998877K    SUPERMERCADO COTO                                                        500,00''"

definition line_bonificacion :: string where
  "line_bonificacion =
     ''       17.01.25     000001     BONIFICACION                                                             50,00-''"

definition line_titular :: string where
  "line_titular =
     ''Tarjeta 1234 Total Consumos de ANA PEREZ   450,00''"

definition line_saldo_actual :: string where
  "line_saldo_actual =
     ''                               SALDO ACTUAL                                                           1.475,00''"

definition line_saldo_actual_alto :: string where
  "line_saldo_actual_alto =
     ''                               SALDO ACTUAL                                                           1.600,00''"

definition line_cuotas :: string where
  "line_cuotas =
     ''       18.01.25     001234*    MERCADO PAGO SA                        03/12               1.234,56   12.345,67''"

definition line_fin :: string where
  "line_fin =
     ''Estimado Cliente: gracias''"

definition join_lines :: "string list \<Rightarrow> string" where
  "join_lines ls = concat (map (\<lambda>l. l @ [CHR 0x0A]) ls)"

definition common_lines :: "string list" where
  "common_lines =
     [''BANCO PATAGONIA'', line_header, line_saldo_anterior, line_iva, line_compra,
      line_bonificacion, line_titular]"

definition sample_page :: string where
  "sample_page = join_lines (common_lines @ [line_saldo_actual, line_fin])"

definition sample_page_alto :: string where
  \<comment> \<open>the same statement with another stated balance\<close>
  "sample_page_alto = join_lines (common_lines @ [line_saldo_actual_alto, line_fin])"

definition sample_extractor :: extractor where
  "sample_extractor = \<lparr>config = patagonia_config, last_resumen_info = None\<rparr>"

definition common_movements :: "movement list" where
  \<comment> \<open>the movements that the scanner reads from \<open>common_lines\<close>\<close>
  "common_movements =
     [\<lparr>fecha = None, comprobante = [], descripcion = ''SALDO ANTERIOR'', importe = 1000,
       cuota = [], moneda = ''ARS'', titular = None, archivo_origen = None, banco = None\<rparr>,
      \<lparr>fecha = None, comprobante = [], descripcion = ''IVA $ 21'', importe = 25,
       cuota = [], moneda = ''ARS'', titular = None, archivo_origen = None, banco = None\<rparr>,
      \<lparr>fecha = Some \<lparr>dt_year = 2025, dt_month = 1, dt_day = 16\<rparr>, comprobante = ''998877K'',
       descripcion = ''SUPERMERCADO COTO'', importe = 500,
       cuota = [], moneda = ''ARS'', titular = None, archivo_origen = None, banco = None\<rparr>,
      \<lparr>fecha = Some \<lparr>dt_year = 2025, dt_month = 1, dt_day = 17\<rparr>, comprobante = ''000001'',
       descripcion = ''BONIFICACION'', importe = - 50,
       cuota = [], moneda = ''ARS'', titular = None, archivo_origen = None, banco = None\<rparr>,
      pseudo_movement ''ANA PEREZ'']"

definition saldo_actual_movement :: "real \<Rightarrow> movement" where
  "saldo_actual_movement amount =
     \<lparr>fecha = None, comprobante = [], descripcion = ''SALDO ACTUAL'', importe = amount,
      cuota = [], moneda = ''ARS'', titular = None, archivo_origen = None, banco = None\<rparr>"

definition sample_movements :: "movement list" where
  \<comment> \<open>the movements that the scanner reads from \<open>sample_page\<close>\<close>
  "sample_movements = common_movements @ [saldo_actual_movement 1475]"

definition stamp :: "movement \<Rightarrow> movement" where
  \<comment> \<open>the name of the file of the sample and of the bank on a movement\<close>
  "stamp mov = mov\<lparr>archivo_origen := Some ''resumen.pdf'', banco := Some ''Patagonia''\<rparr>"

definition page_without_header :: string where
  \<comment> \<open>the movements of \<open>sample_page\<close> under a heading that lacks a header word\<close>
  "page_without_header =
     join_lines [''       FECHA        COMPROBANTE  IMPORTE'', line_saldo_anterior, line_compra,
                 line_titular, line_saldo_actual, line_fin]"

definition is_pseudo :: "movement \<Rightarrow> bool" where
  \<comment> \<open>a pseudo-movement: a record whose \<^verbatim>\<open>titular\<close> is a name\<close>
  "is_pseudo mov = (get_titular mov \<noteq> [])"

definition clear_titular :: "movement \<Rightarrow> movement" where
  "clear_titular mov = mov\<lparr>titular := Some []\<rparr>"

fun next_name :: "movement list \<Rightarrow> string" where
  \<comment> \<open>the name of the first pseudo-movement of the list, empty when there is none\<close>
  "next_name [] = []"
| "next_name (mov # movs) = (if is_pseudo mov then get_titular mov else next_name movs)"

fun attribute :: "movement list \<Rightarrow> movement list" where
  \<comment> \<open>every movement under the name of the next pseudo-movement after it, and the
      pseudo-movements left out\<close>
  "attribute [] = []"
| "attribute (mov # movs) =
     (if is_pseudo mov then attribute movs
      else mov\<lparr>titular := Some (next_name movs)\<rparr> # attribute movs)"

fun attribute_all :: "movement list \<Rightarrow> movement list" where
  \<comment> \<open>as \<open>attribute\<close>, with the pseudo-movements still in their places\<close>
  "attribute_all [] = []"
| "attribute_all (mov # movs) =
     (if is_pseudo mov then clear_titular mov
      else mov\<lparr>titular := Some (next_name movs)\<rparr>) # attribute_all movs"

fun ranges :: "nat \<Rightarrow> nat \<Rightarrow> movement list \<Rightarrow> titular_data list" where
  \<comment> \<open>the ranges that the first pass collects from the index \<open>i\<close> on, when the first
      movement without a name yet is at \<open>p\<close>\<close>
  "ranges i p [] = []"
| "ranges i p (mov # movs) =
     (if is_pseudo mov then
        (if p < i
         then [\<lparr>nombre = get_titular mov, primer_movimiento = p, ultimo_movimiento = i - 1\<rparr>]
         else []) @ ranges (Suc i) (Suc i) movs
      else ranges (Suc i) p movs)"

definition compra :: "string \<Rightarrow> movement" where
  \<comment> \<open>a movement as the line parser gives it, with the description \<open>d\<close>\<close>
  "compra d =
     \<lparr>fecha = None, comprobante = [], descripcion = d, importe = 100, cuota = [],
      moneda = ''ARS'', titular = None, archivo_origen = None, banco = None\<rparr>"

definition attribution_example :: "movement list" where
  \<comment> \<open>pseudo-movements at the indices 3 and 6, followed by two and by three movements\<close>
  "attribution_example =
     [compra ''A'', compra ''B'', compra ''C'', pseudo_movement ''Ana'',
      compra ''D'', compra ''E'', pseudo_movement ''Luis'',
      compra ''F'', compra ''G'', compra ''H'']"

text \<open>
  The rules for the separators of an amount, in the words of the specification. The value
  is computed from the digits, with no replacement in the string and no conversion by
  \<open>py_float\<close>.
\<close>

definition kept :: "string \<Rightarrow> string" where
  \<comment> \<open>the digits and separators of a string\<close>
  "kept s = filter (\<lambda>c. is_digit c \<or> c = CHR ''.'' \<or> c = CHR '','') s"

definition digits_of :: "string \<Rightarrow> string" where
  "digits_of s = filter is_digit s"

definition part_before :: "char \<Rightarrow> string \<Rightarrow> string" where
  \<comment> \<open>what precedes the first occurrence of the separator\<close>
  "part_before d s = takeWhile (\<lambda>c. c \<noteq> d) s"

definition part_after :: "char \<Rightarrow> string \<Rightarrow> string" where
  \<comment> \<open>what follows the first occurrence of the separator\<close>
  "part_after d s = tl (dropWhile (\<lambda>c. c \<noteq> d) s)"

definition whole :: "string \<Rightarrow> real" where
  \<comment> \<open>the number that a string of digits denotes\<close>
  "whole w = of_int (int_of_digits w)"

definition decimal :: "string \<Rightarrow> string \<Rightarrow> real" where
  \<comment> \<open>the number with the integer digits \<open>w\<close> and the decimal digits \<open>f\<close>\<close>
  "decimal w f = whole w + whole f / 10 ^ length f"

definition magnitude :: "string \<Rightarrow> real option" where
  \<comment> \<open>the value of a string of digits and separators\<close>
  "magnitude t =
     (if digits_of t = [] then None
      else if CHR ''.'' \<in> set t \<and> CHR '','' \<in> set t then
        \<comment> \<open>the points separate thousands, the comma is the decimal separator\<close>
        (if count_list t (CHR '','') = 1
         then Some (decimal (digits_of (part_before (CHR '','') t))
                            (digits_of (part_after (CHR '','') t)))
         else None)
      else if CHR '','' \<in> set t then
        (if count_list t (CHR '','') = 1 \<and> length (part_after (CHR '','') t) \<le> 2
         then Some (decimal (part_before (CHR '','') t) (part_after (CHR '','') t))
         else Some (whole (digits_of t)))
      else if CHR ''.'' \<in> set t then
        (if count_list t (CHR ''.'') = 1 \<and> length (part_after (CHR ''.'') t) \<le> 2 \<and>
            length (part_before (CHR ''.'') t) \<le> 3
         then Some (decimal (part_before (CHR ''.'') t) (part_after (CHR ''.'') t))
         else Some (whole (digits_of t)))
      else Some (whole t))"

definition amount_by_rules :: "string \<Rightarrow> real option" where
  \<comment> \<open>a minus sign at the end, after the blanks are stripped, negates the value\<close>
  "amount_by_rules s =
     (let t = strip s;
          negative = (t \<noteq> [] \<and> last t = CHR ''-'');
          m = magnitude (kept (if negative then butlast t else t))
      in if negative then map_option uminus m else m)"

section \<open>Deleting by index\<close>

lemma idxs_Suc: "idxs fs (Suc i) = map Suc (idxs fs i)"
  by (induction fs arbitrary: i) auto

lemma del_at_Suc: "del_at (Suc i) (y # ys) = y # del_at i ys"
  by (simp add: del_at_def)

lemma del_at_0: "del_at 0 (y # ys) = ys"
  by (simp add: del_at_def)

lemma foldl_del_Suc:
  "foldl (\<lambda>ms i. del_at i ms) (y # ys) (map Suc js) = y # foldl (\<lambda>ms i. del_at i ms) ys js"
  by (induction js arbitrary: ys) (simp_all add: del_at_Suc)

lemma delete_indices_Suc: "delete_indices (map Suc js) (y # ys) = y # delete_indices js ys"
  by (simp add: delete_indices_def rev_map foldl_del_Suc)

lemma delete_indices_0: "delete_indices (0 # map Suc js) (y # ys) = delete_indices js ys"
  by (simp add: delete_indices_def rev_map foldl_del_Suc del_at_0)

text \<open>
  Deleting the flagged positions from the last to the first leaves the elements that are
  not flagged, in their order.
\<close>

lemma delete_indices_idxs:
  "length fs = length ys \<Longrightarrow>
   delete_indices (idxs fs 0) ys = map snd (filter (\<lambda>p. \<not> fst p) (zip fs ys))"
proof (induction fs ys rule: list_induct2)
  case Nil
  show ?case by (simp add: delete_indices_def)
next
  case (Cons f fs y ys)
  then show ?case
    by (simp add: idxs_Suc delete_indices_Suc delete_indices_0)
qed

lemma zip_map_filter:
  "map snd (filter (\<lambda>p. \<not> fst p) (zip (map P xs) xs)) = filter (\<lambda>x. \<not> P x) xs"
  by (induction xs) auto

section \<open>The removal passes\<close>

lemma sum_matching_eq:
  "sum_matching ps i movs acc =
     (fst acc + sum_list (map importe (filter (\<lambda>m. matches_any ps (upper (descripcion m))) movs)),
      snd acc @ idxs (map (\<lambda>m. matches_any ps (upper (descripcion m))) movs) i)"
  by (induction movs arbitrary: i acc) (auto simp: algebra_simps)

text \<open>
  C10: the prior-balance pass and the bank-charges pass return the movements that match
  no pattern, each as it was and in the order they had, and the total each pass returns
  is the sum of the amounts of the movements it removed, which are the matching ones.
\<close>

theorem removal_passes_frame:
  "extract_saldo_anterior cfg movements =
     (sum_list (map importe (filter (is_saldo cfg) movements)),
      filter (\<lambda>mov. \<not> is_saldo cfg mov) movements) \<and>
   extract_cargos_bancarios cfg movements =
     (sum_list (map importe (filter (is_cargo cfg) movements)),
      filter (\<lambda>mov. \<not> is_cargo cfg mov) movements)"
proof -
  have a: "\<And>ps. delete_indices (idxs (map (\<lambda>m. matches_any ps (upper (descripcion m))) movements) 0) movements
      = filter (\<lambda>m. \<not> matches_any ps (upper (descripcion m))) movements"
    by (simp add: delete_indices_idxs zip_map_filter)
  show ?thesis
    unfolding extract_saldo_anterior_def extract_cargos_bancarios_def Let_def sum_matching_eq
      is_saldo_def [abs_def] is_cargo_def [abs_def]
    by (simp add: a)
qed

theorem removal_passes_frame_witness:
  "fst (extract_saldo_anterior patagonia_config sample_movements) = 1000 \<and>
   map descripcion (snd (extract_saldo_anterior patagonia_config sample_movements))
     = [''IVA $ 21'', ''SUPERMERCADO COTO'', ''BONIFICACION'', [], ''SALDO ACTUAL''] \<and>
   fst (extract_cargos_bancarios patagonia_config sample_movements) = 25 \<and>
   map descripcion (snd (extract_cargos_bancarios patagonia_config sample_movements))
     = [''SALDO ANTERIOR'', ''SUPERMERCADO COTO'', ''BONIFICACION'', [], ''SALDO ACTUAL'']"
proof -
  have s1: "sum_list (map importe (filter (is_saldo patagonia_config) sample_movements)) = 1000"
    by code_simp
  have s2: "map descripcion (filter (\<lambda>mov. \<not> is_saldo patagonia_config mov) sample_movements)
            = [''IVA $ 21'', ''SUPERMERCADO COTO'', ''BONIFICACION'', [], ''SALDO ACTUAL'']"
    by code_simp
  have c1: "sum_list (map importe (filter (is_cargo patagonia_config) sample_movements)) = 25"
    by code_simp
  have c2: "map descripcion (filter (\<lambda>mov. \<not> is_cargo patagonia_config mov) sample_movements)
            = [''SALDO ANTERIOR'', ''SUPERMERCADO COTO'', ''BONIFICACION'', [], ''SALDO ACTUAL'']"
    by code_simp
  show ?thesis
    using removal_passes_frame [of patagonia_config sample_movements]
    by (simp only: fst_conv snd_conv s1 s2 c1 c2 simp_thms)
qed

section \<open>The movement-section scanner\<close>

lemma scan_line_outside:
  "\<not> is_header line \<Longrightarrow> scan_line (False, []) line = (False, [])"
  by (simp add: scan_line_def)

lemma scan_lines_outside:
  "\<forall>line \<in> set lines. \<not> is_header line \<Longrightarrow> foldl scan_line (False, []) lines = (False, [])"
  by (induction lines) (simp_all add: scan_line_outside)

text \<open>
  C7: when no line of the text holds the three header words \<^verbatim>\<open>FECHA\<close>, \<^verbatim>\<open>COMPROBANTE\<close> and
  \<^verbatim>\<open>DETALLE\<close> together, the scanner is outside the movement section after every line,
  with no movement collected, and the text gives the empty list of movements.
\<close>

theorem no_header_no_movements:
  assumes "\<forall>line \<in> set (split_on (CHR 0x0A) text). \<not> is_header line"
  shows "extract_movements_from_text text = [] \<and>
         (\<forall>k. scan_lines (take k (split_on (CHR 0x0A) text)) = (False, []))"
proof -
  have "scan_lines (take k (split_on (CHR 0x0A) text)) = (False, [])" for k
  proof -
    have "\<forall>line \<in> set (take k (split_on (CHR 0x0A) text)). \<not> is_header line"
      using assms by (meson in_set_takeD)
    then show ?thesis
      unfolding scan_lines_def by (rule scan_lines_outside)
  qed
  moreover have "scan_lines (split_on (CHR 0x0A) text) = (False, [])"
    unfolding scan_lines_def using assms by (rule scan_lines_outside)
  ultimately show ?thesis
    by (simp add: extract_movements_from_text_def)
qed

theorem no_header_no_movements_witness:
  "list_all (\<lambda>line. \<not> is_header line) (split_on (CHR 0x0A) page_without_header) \<and>
   extract_movements_from_text page_without_header = [] \<and>
   scan_lines (take 2 (split_on (CHR 0x0A) page_without_header)) = (False, [])"
proof -
  have h: "list_all (\<lambda>line. \<not> is_header line) (split_on (CHR 0x0A) page_without_header)"
    by code_simp
  then have "\<forall>line \<in> set (split_on (CHR 0x0A) page_without_header). \<not> is_header line"
    by (simp add: list_all_iff)
  from no_header_no_movements [OF this] h show ?thesis
    by simp
qed

section \<open>Reading the file\<close>

text \<open>
  C8: when the reader gives no page, because the file cannot be opened or because the
  document has none, the extraction from the file returns the empty list of movements
  and raises nothing.
\<close>

theorem zero_pages_no_movements:
  "extract_pages_from_pdf (Inl e) = [] \<and>
   extract_pages_from_pdf (Inr []) = [] \<and>
   (extract_pages_from_pdf pdf = [] \<longrightarrow> extract_movements_from_file pdf = Inr [])"
  by (simp add: extract_pages_from_pdf_def extract_movements_from_file_def)

theorem zero_pages_no_movements_witness:
  "extract_movements_from_file (Inl ReaderError) = Inr [] \<and>
   extract_movements_from_file (Inr []) = Inr []"
  using zero_pages_no_movements [of ReaderError "Inl ReaderError"]
    zero_pages_no_movements [of ReaderError "Inr []"]
  by simp

section \<open>The fixed-column line parser\<close>

lemma one_movement_shape:
  assumes "\<And>amount. importe (r amount) = amount"
  shows "list_all (\<lambda>mov. e = Some (importe mov))
           (if a then []
            else (case e of None \<Rightarrow> []
                  | Some amount \<Rightarrow> if d then [r amount] else [])) \<and>
         length (if a then []
                 else (case e of None \<Rightarrow> []
                       | Some amount \<Rightarrow> if d then [r amount] else [])) \<le> 1"
  using assms by (cases e) simp_all

lemma parse_columns_amount:
  "list_all (\<lambda>mov. extract_amount (monto_str_of monto_raw) = Some (importe mov))
     (parse_columns line monto_raw pos) \<and>
   length (parse_columns line monto_raw pos) \<le> 1"
  unfolding parse_columns_def monto_str_of_def Let_def
  by (rule one_movement_shape) simp

text \<open>
  C6: when the part of the line from column 80 on matches the pattern of two amounts,
  the line gives at most one movement and its amount is the value of the first group of
  that match; the pattern of one amount is used only when the pattern of two amounts
  does not match; when neither matches, the line gives no movement.
\<close>

theorem double_amount_preferred:
  "(re_search monto_doble_re (drop min_amount_pos line) = Some m \<longrightarrow>
      list_all (\<lambda>mov. extract_amount (monto_str_of (group m 1)) = Some (importe mov))
        (parse_by_fixed_positions line) \<and>
      length (parse_by_fixed_positions line) \<le> 1) \<and>
   (re_search monto_doble_re (drop min_amount_pos line) = None \<and>
    re_search monto_simple_re (drop min_amount_pos line) = Some m \<longrightarrow>
      list_all (\<lambda>mov. extract_amount (monto_str_of (group m 1)) = Some (importe mov))
        (parse_by_fixed_positions line) \<and>
      length (parse_by_fixed_positions line) \<le> 1) \<and>
   (re_search monto_doble_re (drop min_amount_pos line) = None \<and>
    re_search monto_simple_re (drop min_amount_pos line) = None \<longrightarrow>
      parse_by_fixed_positions line = [])"
proof (intro conjI impI)
  assume d: "re_search monto_doble_re (drop min_amount_pos line) = Some m"
  have "parse_by_fixed_positions line = [] \<or>
        parse_by_fixed_positions line = parse_columns line (group m 1) (int min_amount_pos + m_start m)"
    unfolding parse_by_fixed_positions_def Let_def d by simp
  then show "list_all (\<lambda>mov. extract_amount (monto_str_of (group m 1)) = Some (importe mov))
        (parse_by_fixed_positions line)"
    and "length (parse_by_fixed_positions line) \<le> 1"
    using parse_columns_amount [of "group m 1" line "int min_amount_pos + m_start m"] by auto
next
  assume s: "re_search monto_doble_re (drop min_amount_pos line) = None \<and>
             re_search monto_simple_re (drop min_amount_pos line) = Some m"
  have "parse_by_fixed_positions line = [] \<or>
        parse_by_fixed_positions line = parse_columns line (group m 1) (int min_amount_pos + m_start m)"
    unfolding parse_by_fixed_positions_def Let_def using s by simp
  then show "list_all (\<lambda>mov. extract_amount (monto_str_of (group m 1)) = Some (importe mov))
        (parse_by_fixed_positions line)"
    and "length (parse_by_fixed_positions line) \<le> 1"
    using parse_columns_amount [of "group m 1" line "int min_amount_pos + m_start m"] by auto
next
  assume "re_search monto_doble_re (drop min_amount_pos line) = None \<and>
          re_search monto_simple_re (drop min_amount_pos line) = None"
  then show "parse_by_fixed_positions line = []"
    unfolding parse_by_fixed_positions_def Let_def by simp
qed

theorem double_amount_preferred_witness:
  "re_search monto_doble_re (drop min_amount_pos line_cuotas) =
     Some \<lparr>m_start = 10, m_end = 30, m_groups = [(2, ''12.345,67''), (1, ''1.234,56'')]\<rparr> \<and>
   map importe (parse_by_fixed_positions line_cuotas) = [1234.56] \<and>
   list_all (\<lambda>mov. extract_amount (monto_str_of ''1.234,56'') = Some (importe mov))
     (parse_by_fixed_positions line_cuotas)"
proof -
  have h: "re_search monto_doble_re (drop min_amount_pos line_cuotas) =
     Some \<lparr>m_start = 10, m_end = 30, m_groups = [(2, ''12.345,67''), (1, ''1.234,56'')]\<rparr>"
    by code_simp
  have g: "group \<lparr>m_start = 10, m_end = 30, m_groups = [(2, ''12.345,67''), (1, ''1.234,56'')]\<rparr> 1
      = ''1.234,56''"
    by code_simp
  have p: "map importe (parse_by_fixed_positions line_cuotas) = [1234.56]"
    by code_simp
  from double_amount_preferred
         [of line_cuotas "\<lparr>m_start = 10, m_end = 30, m_groups = [(2, ''12.345,67''), (1, ''1.234,56'')]\<rparr>"]
       h g p
  show ?thesis by simp
qed

section \<open>Reconciliation\<close>

lemma procesar_movimientos_resumen:
  "total_consumos (snd (procesar_movimientos cfg movements)) =
     sum_list (map importe (filter (\<lambda>mov. importe mov > 0) (fst (procesar_movimientos cfg movements)))) \<and>
   bonificaciones (snd (procesar_movimientos cfg movements)) =
     sum_list (map importe (filter (\<lambda>mov. importe mov < 0) (fst (procesar_movimientos cfg movements)))) \<and>
   saldo_anterior (snd (procesar_movimientos cfg movements)) =
     fst (extract_saldo_anterior cfg movements) \<and>
   cargos_bancarios (snd (procesar_movimientos cfg movements)) =
     fst (extract_cargos_bancarios cfg (snd (extract_saldo_anterior cfg movements))) \<and>
   saldo_calculado (snd (procesar_movimientos cfg movements)) =
     saldo_anterior (snd (procesar_movimientos cfg movements)) +
     total_consumos (snd (procesar_movimientos cfg movements)) +
     bonificaciones (snd (procesar_movimientos cfg movements)) +
     cargos_bancarios (snd (procesar_movimientos cfg movements))"
  by (simp add: procesar_movimientos_def Let_def)

lemma procesar_movimientos_validacion:
  "(case saldo_actual (snd (procesar_movimientos cfg movements)) of
      None \<Rightarrow> validacion_ok (snd (procesar_movimientos cfg movements)) = None \<and>
              diferencia_validacion (snd (procesar_movimientos cfg movements)) = None
    | Some actual \<Rightarrow>
        validacion_ok (snd (procesar_movimientos cfg movements)) =
          Some (\<bar>saldo_calculado (snd (procesar_movimientos cfg movements)) - actual\<bar> \<le> 1) \<and>
        diferencia_validacion (snd (procesar_movimientos cfg movements)) =
          Some \<bar>saldo_calculado (snd (procesar_movimientos cfg movements)) - actual\<bar>)"
  by (simp add: procesar_movimientos_def Let_def split: option.split)

lemma patagonia_extract_processed:
  "extract_movements (config self) name pdf = Inr movements \<Longrightarrow> movements \<noteq> [] \<Longrightarrow>
   patagonia_extract self name pdf =
     Inr (fst (procesar_movimientos (config self) movements),
          self\<lparr>last_resumen_info := Some (snd (procesar_movimientos (config self) movements))\<rparr>)"
  by (simp add: patagonia_extract_def Let_def)

lemma split_sample_page:
  "split_on (CHR 0x0A) sample_page = common_lines @ [line_saldo_actual, line_fin, []]"
  by code_simp

lemma split_sample_page_alto:
  "split_on (CHR 0x0A) sample_page_alto = common_lines @ [line_saldo_actual_alto, line_fin, []]"
  by code_simp

lemma scan_common_lines: "foldl scan_line (False, []) common_lines = (True, common_movements)"
  by code_simp

lemma scan_saldo_actual:
  "foldl scan_line (True, common_movements) [line_saldo_actual, line_fin, []] =
     (False, common_movements @ [saldo_actual_movement 1475])"
  by code_simp

lemma scan_saldo_actual_alto:
  "foldl scan_line (True, common_movements) [line_saldo_actual_alto, line_fin, []] =
     (False, common_movements @ [saldo_actual_movement 1600])"
  by code_simp

lemma text_sample_page: "extract_movements_from_text sample_page = sample_movements"
  by (simp only: extract_movements_from_text_def scan_lines_def split_sample_page foldl_append
        scan_common_lines scan_saldo_actual sample_movements_def snd_conv)

lemma text_sample_page_alto:
  "extract_movements_from_text sample_page_alto = common_movements @ [saldo_actual_movement 1600]"
  by (simp only: extract_movements_from_text_def scan_lines_def split_sample_page_alto
        foldl_append scan_common_lines scan_saldo_actual_alto snd_conv)

lemma sample_pages_not_empty: "sample_page \<noteq> [] \<and> sample_page_alto \<noteq> []"
  by code_simp

lemma title_patagonia: "title (processor patagonia_config) = ''Patagonia''"
  by code_simp

lemma extract_sample_page:
  "extract_movements (config sample_extractor) ''resumen.pdf'' (Inr [Inr sample_page]) =
     Inr (map stamp sample_movements)"
  using sample_pages_not_empty
  by (simp add: extract_movements_def extract_movements_from_file_def extract_pages_from_pdf_def
        text_sample_page sample_extractor_def title_patagonia stamp_def [abs_def])

lemma extract_sample_page_alto:
  "extract_movements (config sample_extractor) ''resumen.pdf'' (Inr [Inr sample_page_alto]) =
     Inr (map stamp (common_movements @ [saldo_actual_movement 1600]))"
  using sample_pages_not_empty
  by (simp add: extract_movements_def extract_movements_from_file_def extract_pages_from_pdf_def
        text_sample_page_alto sample_extractor_def title_patagonia stamp_def [abs_def])

lemma resumen_sample:
  "snd (procesar_movimientos (config sample_extractor) (map stamp sample_movements)) =
     \<lparr>saldo_anterior = 1000, cargos_bancarios = 25, saldo_actual = Some 1475, pago_minimo = None,
      total_consumos = 500, bonificaciones = - 50, saldo_calculado = 1475,
      diferencia_validacion = Some 0, validacion_ok = Some True\<rparr>"
  by code_simp

lemma resumen_sample_alto:
  "snd (procesar_movimientos (config sample_extractor)
          (map stamp (common_movements @ [saldo_actual_movement 1600]))) =
     \<lparr>saldo_anterior = 1000, cargos_bancarios = 25, saldo_actual = Some 1600, pago_minimo = None,
      total_consumos = 500, bonificaciones = - 50, saldo_calculado = 1475,
      diferencia_validacion = Some 125, validacion_ok = Some False\<rparr>"
  by code_simp

lemma stamped_not_empty:
  "map stamp sample_movements \<noteq> [] \<and> map stamp (common_movements @ [saldo_actual_movement 1600]) \<noteq> []"
  by (simp add: sample_movements_def)

text \<open>
  C2: after the passes, the summary holds the sum of the positive amounts that remain,
  the sum of the negative ones, and the computed balance, which is the prior balance
  plus those two sums plus the bank charges; with a stated balance captured, the check
  passes exactly when the computed balance is within 1.0 of it, and the difference is
  recorded. For the sample statement (prior balance 1000, a charge of 500, a bonus of
  50, bank charges of 25) the computed balance is 1475: it passes against a stated
  balance of 1475 and fails against 1600 with the difference 125.
\<close>

theorem reconciliation:
  "(extract_movements (config self) name pdf = Inr movements \<and> movements \<noteq> [] \<longrightarrow>
      (\<exists>final r.
         patagonia_extract self name pdf = Inr (final, self\<lparr>last_resumen_info := Some r\<rparr>) \<and>
         (final, r) = procesar_movimientos (config self) movements \<and>
         saldo_anterior r = fst (extract_saldo_anterior (config self) movements) \<and>
         cargos_bancarios r =
           fst (extract_cargos_bancarios (config self)
                  (snd (extract_saldo_anterior (config self) movements))) \<and>
         total_consumos r = sum_list (map importe (filter (\<lambda>mov. importe mov > 0) final)) \<and>
         bonificaciones r = sum_list (map importe (filter (\<lambda>mov. importe mov < 0) final)) \<and>
         saldo_calculado r =
           saldo_anterior r + total_consumos r + bonificaciones r + cargos_bancarios r \<and>
         (case saldo_actual r of
            None \<Rightarrow> validacion_ok r = None \<and> diferencia_validacion r = None
          | Some actual \<Rightarrow>
              validacion_ok r = Some (\<bar>saldo_calculado r - actual\<bar> \<le> 1) \<and>
              diferencia_validacion r = Some \<bar>saldo_calculado r - actual\<bar>))) \<and>
   (\<exists>final.
      patagonia_extract sample_extractor ''resumen.pdf'' (Inr [Inr sample_page]) =
        Inr (final, sample_extractor\<lparr>last_resumen_info := Some
          \<lparr>saldo_anterior = 1000, cargos_bancarios = 25, saldo_actual = Some 1475,
           pago_minimo = None, total_consumos = 500, bonificaciones = - 50,
           saldo_calculado = 1475, diferencia_validacion = Some 0,
           validacion_ok = Some True\<rparr>\<rparr>)) \<and>
   (\<exists>final.
      patagonia_extract sample_extractor ''resumen.pdf'' (Inr [Inr sample_page_alto]) =
        Inr (final, sample_extractor\<lparr>last_resumen_info := Some
          \<lparr>saldo_anterior = 1000, cargos_bancarios = 25, saldo_actual = Some 1600,
           pago_minimo = None, total_consumos = 500, bonificaciones = - 50,
           saldo_calculado = 1475, diferencia_validacion = Some 125,
           validacion_ok = Some False\<rparr>\<rparr>))"
proof (intro conjI impI)
  assume h: "extract_movements (config self) name pdf = Inr movements \<and> movements \<noteq> []"
  show "\<exists>final r.
         patagonia_extract self name pdf = Inr (final, self\<lparr>last_resumen_info := Some r\<rparr>) \<and>
         (final, r) = procesar_movimientos (config self) movements \<and>
         saldo_anterior r = fst (extract_saldo_anterior (config self) movements) \<and>
         cargos_bancarios r =
           fst (extract_cargos_bancarios (config self)
                  (snd (extract_saldo_anterior (config self) movements))) \<and>
         total_consumos r = sum_list (map importe (filter (\<lambda>mov. importe mov > 0) final)) \<and>
         bonificaciones r = sum_list (map importe (filter (\<lambda>mov. importe mov < 0) final)) \<and>
         saldo_calculado r =
           saldo_anterior r + total_consumos r + bonificaciones r + cargos_bancarios r \<and>
         (case saldo_actual r of
            None \<Rightarrow> validacion_ok r = None \<and> diferencia_validacion r = None
          | Some actual \<Rightarrow>
              validacion_ok r = Some (\<bar>saldo_calculado r - actual\<bar> \<le> 1) \<and>
              diferencia_validacion r = Some \<bar>saldo_calculado r - actual\<bar>)"
    apply (rule exI [of _ "fst (procesar_movimientos (config self) movements)"])
    apply (rule exI [of _ "snd (procesar_movimientos (config self) movements)"])
    using h patagonia_extract_processed [of self name pdf movements]
      procesar_movimientos_resumen [of "config self" movements]
      procesar_movimientos_validacion [of "config self" movements]
    apply (simp only: prod.collapse simp_thms)
    done
next
  show "\<exists>final.
      patagonia_extract sample_extractor ''resumen.pdf'' (Inr [Inr sample_page]) =
        Inr (final, sample_extractor\<lparr>last_resumen_info := Some
          \<lparr>saldo_anterior = 1000, cargos_bancarios = 25, saldo_actual = Some 1475,
           pago_minimo = None, total_consumos = 500, bonificaciones = - 50,
           saldo_calculado = 1475, diferencia_validacion = Some 0,
           validacion_ok = Some True\<rparr>\<rparr>)"
    unfolding patagonia_extract_processed [OF extract_sample_page conjunct1 [OF stamped_not_empty]]
      resumen_sample
    by blast
next
  show "\<exists>final.
      patagonia_extract sample_extractor ''resumen.pdf'' (Inr [Inr sample_page_alto]) =
        Inr (final, sample_extractor\<lparr>last_resumen_info := Some
          \<lparr>saldo_anterior = 1000, cargos_bancarios = 25, saldo_actual = Some 1600,
           pago_minimo = None, total_consumos = 500, bonificaciones = - 50,
           saldo_calculado = 1475, diferencia_validacion = Some 125,
           validacion_ok = Some False\<rparr>\<rparr>)"
    unfolding patagonia_extract_processed
        [OF extract_sample_page_alto conjunct2 [OF stamped_not_empty]]
      resumen_sample_alto
    by blast
qed

theorem reconciliation_witness:
  "extract_movements (config sample_extractor) ''resumen.pdf'' (Inr [Inr sample_page]) =
     Inr (map stamp sample_movements) \<and>
   map stamp sample_movements \<noteq> [] \<and>
   (\<exists>final r.
      patagonia_extract sample_extractor ''resumen.pdf'' (Inr [Inr sample_page]) =
        Inr (final, sample_extractor\<lparr>last_resumen_info := Some r\<rparr>) \<and>
      total_consumos r = sum_list (map importe (filter (\<lambda>mov. importe mov > 0) final)) \<and>
      saldo_calculado r =
        saldo_anterior r + total_consumos r + bonificaciones r + cargos_bancarios r)"
proof -
  have a: "extract_movements (config sample_extractor) ''resumen.pdf'' (Inr [Inr sample_page]) =
     Inr (map stamp sample_movements)"
    by (rule extract_sample_page)
  have b: "map stamp sample_movements \<noteq> []"
    using stamped_not_empty by simp
  from reconciliation [of sample_extractor "''resumen.pdf''" "Inr [Inr sample_page]"
         "map stamp sample_movements"] a b
  show ?thesis by blast
qed

section \<open>Cardholder attribution\<close>

lemma primera_pasada_eq:
  "p \<le> i \<Longrightarrow>
   fst (primera_pasada i movs (d, p, r, u)) = d @ ranges i p movs \<and>
   fst (snd (snd (primera_pasada i movs (d, p, r, u)))) = r @ idxs (map is_pseudo movs) i"
proof (induction movs arbitrary: i d p r u)
  case Nil
  then show ?case by simp
next
  case (Cons mov movs)
  show ?case
  proof (cases "is_pseudo mov")
    case True
    then have t: "get_titular mov \<noteq> []" by (simp add: is_pseudo_def)
    show ?thesis
    proof (cases "p < i")
      case True
      with t Cons.IH [of "Suc i" "Suc i"] \<open>is_pseudo mov\<close> show ?thesis
        by (simp add: Let_def)
    next
      case False
      with Cons.prems have "p = i" by simp
      with t Cons.IH [of "Suc i" "Suc i"] \<open>is_pseudo mov\<close> show ?thesis
        by (simp add: Let_def)
    qed
  next
    case False
    then have t: "get_titular mov = []" by (simp add: is_pseudo_def)
    from Cons.prems have "p \<le> Suc i" by simp
    with t Cons.IH [of p "Suc i"] False show ?thesis
      by (simp add: Let_def)
  qed
qed

lemma foldl_update_upt:
  "b \<le> length l \<Longrightarrow>
   length (foldl (\<lambda>ms i. ms[i := g (ms ! i)]) l [a..<b]) = length l \<and>
   (\<forall>j<length l. foldl (\<lambda>ms i. ms[i := g (ms ! i)]) l [a..<b] ! j =
      (if a \<le> j \<and> j < b then g (l ! j) else l ! j))"
proof (induction b)
  case 0
  then show ?case by simp
next
  case (Suc b)
  then have IH: "length (foldl (\<lambda>ms i. ms[i := g (ms ! i)]) l [a..<b]) = length l"
    "\<And>j. j < length l \<Longrightarrow> foldl (\<lambda>ms i. ms[i := g (ms ! i)]) l [a..<b] ! j =
      (if a \<le> j \<and> j < b then g (l ! j) else l ! j)"
    by simp_all
  show ?case
  proof (cases "a \<le> b")
    case True
    then have "[a..<Suc b] = [a..<b] @ [b]" by simp
    with IH Suc.prems show ?thesis
      by (auto simp: nth_list_update)
  next
    case False
    with IH show ?thesis by auto
  qed
qed

lemma assign_range_pending:
  assumes "p < length pre"
  shows "assign_range (pre @ rest)
           \<lparr>nombre = n, primer_movimiento = p, ultimo_movimiento = length pre - 1\<rparr> =
         take p pre @ map (\<lambda>m. m\<lparr>titular := Some n\<rparr>) (drop p pre) @ rest"
proof -
  let ?l = "pre @ rest"
  let ?g = "\<lambda>m. m\<lparr>titular := Some n\<rparr>"
  have "length pre - 1 + 1 = length pre"
    using assms by simp
  then have r: "[max 0 p..<min (length ?l) (length pre - 1 + 1)] = [p..<length pre]"
    by (simp only: length_append max_0L) simp
  have b: "length pre \<le> length ?l" by simp
  note f = foldl_update_upt [OF b, of ?g p]
  show ?thesis
    unfolding assign_range_def titular_data.simps r
  proof (rule nth_equalityI)
    show "length (foldl (\<lambda>ms i. ms[i := (ms ! i)\<lparr>titular := Some n\<rparr>]) ?l [p..<length pre]) =
          length (take p pre @ map ?g (drop p pre) @ rest)"
      using f assms by simp
  next
    fix j
    assume "j < length (foldl (\<lambda>ms i. ms[i := (ms ! i)\<lparr>titular := Some n\<rparr>]) ?l [p..<length pre])"
    then have j: "j < length ?l" using f by simp
    with f have "foldl (\<lambda>ms i. ms[i := (ms ! i)\<lparr>titular := Some n\<rparr>]) ?l [p..<length pre] ! j =
      (if p \<le> j \<and> j < length pre then ?g (?l ! j) else ?l ! j)"
      by blast
    also have "\<dots> = (take p pre @ map ?g (drop p pre) @ rest) ! j"
      using assms j by (auto simp: nth_append min_def)
    finally show "foldl (\<lambda>ms i. ms[i := (ms ! i)\<lparr>titular := Some n\<rparr>]) ?l [p..<length pre] ! j =
      (take p pre @ map ?g (drop p pre) @ rest) ! j" .
  qed
qed


lemma foldl_ranges:
  "length pre = i \<Longrightarrow> p \<le> i \<Longrightarrow> \<forall>m \<in> set (drop p pre). titular m = Some [] \<Longrightarrow>
   foldl assign_range (pre @ map clear_titular movs) (ranges i p movs) =
     take p pre @ map (\<lambda>m. m\<lparr>titular := Some (next_name movs)\<rparr>) (drop p pre) @
     attribute_all movs"
proof (induction movs arbitrary: i p pre)
  case Nil
  then have "map (\<lambda>m. m\<lparr>titular := Some []\<rparr>) (drop p pre) = drop p pre"
    by (simp add: map_idI)
  then show ?case by simp
next
  case (Cons mov movs)
  show ?case
  proof (cases "is_pseudo mov")
    case True
    define pre' where
      "pre' = take p pre @ map (\<lambda>m. m\<lparr>titular := Some (get_titular mov)\<rparr>) (drop p pre)"
    have lp: "length pre' = i"
      using Cons.prems by (simp add: pre'_def)
    have st: "foldl assign_range (pre @ map clear_titular (mov # movs))
                (if p < i
                 then [\<lparr>nombre = get_titular mov, primer_movimiento = p, ultimo_movimiento = i - 1\<rparr>]
                 else []) = pre' @ map clear_titular (mov # movs)"
    proof (cases "p < i")
      case True
      with Cons.prems assign_range_pending [of p pre "map clear_titular (mov # movs)" "get_titular mov"]
      show ?thesis by (simp add: pre'_def)
    next
      case False
      with Cons.prems show ?thesis by (simp add: pre'_def)
    qed
    have "foldl assign_range ((pre' @ [clear_titular mov]) @ map clear_titular movs)
            (ranges (Suc i) (Suc i) movs) =
          take (Suc i) (pre' @ [clear_titular mov]) @
          map (\<lambda>m. m\<lparr>titular := Some (next_name movs)\<rparr>) (drop (Suc i) (pre' @ [clear_titular mov])) @
          attribute_all movs"
      using lp by (intro Cons.IH) simp_all
    then have "foldl assign_range (pre' @ map clear_titular (mov # movs))
            (ranges (Suc i) (Suc i) movs) = pre' @ clear_titular mov # attribute_all movs"
      using lp by simp
    with st True show ?thesis by (simp add: pre'_def)
  next
    case False
    have len: "length (pre @ [clear_titular mov]) = Suc i"
      using Cons.prems by simp
    have inv: "\<forall>m \<in> set (drop p (pre @ [clear_titular mov])). titular m = Some []"
      using Cons.prems by (auto simp: clear_titular_def)
    have "foldl assign_range ((pre @ [clear_titular mov]) @ map clear_titular movs)
            (ranges (Suc i) p movs) =
          take p (pre @ [clear_titular mov]) @
          map (\<lambda>m. m\<lparr>titular := Some (next_name movs)\<rparr>) (drop p (pre @ [clear_titular mov])) @
          attribute_all movs"
      using len inv Cons.prems by (intro Cons.IH) simp_all
    moreover have "(clear_titular mov)\<lparr>titular := Some (next_name movs)\<rparr> =
        mov\<lparr>titular := Some (next_name movs)\<rparr>"
      by (simp add: clear_titular_def)
    ultimately show ?thesis
      using False Cons.prems by simp
  qed
qed

lemma attribute_all_filter:
  "map snd (filter (\<lambda>p. \<not> fst p) (zip (map is_pseudo movs) (attribute_all movs))) = attribute movs"
  by (induction movs) simp_all

lemma length_attribute_all: "length (attribute_all movs) = length movs"
  by (induction movs) simp_all

text \<open>
  The three passes together: every movement is put under the name of the next
  pseudo-movement after it, or under the empty name when none follows, and the
  pseudo-movements are taken out.
\<close>

lemma assign_titular_attribute:
  "assign_titular_to_movements_advanced movements = attribute movements"
proof -
  have p: "fst (primera_pasada 0 movements ([], 0, [], 0)) = ranges 0 0 movements"
    "fst (snd (snd (primera_pasada 0 movements ([], 0, [], 0)))) = idxs (map is_pseudo movements) 0"
    using primera_pasada_eq [of 0 0 movements "[]" "[]" 0] by simp_all
  have f: "foldl assign_range (map clear_titular movements) (ranges 0 0 movements) =
           attribute_all movements"
    using foldl_ranges [of "[]" 0 0 movements] by simp
  show ?thesis
    unfolding assign_titular_to_movements_advanced_def Let_def p
    using f delete_indices_idxs [of "map is_pseudo movements" "attribute_all movements"]
    by (simp add: clear_titular_def [abs_def] length_attribute_all attribute_all_filter)
qed

lemma next_name_append:
  "list_all (\<lambda>mov. \<not> is_pseudo mov) post \<Longrightarrow> next_name (movs @ post) = next_name movs"
proof (induction movs)
  case Nil
  then show ?case by (induction post) simp_all
next
  case (Cons mov movs)
  then show ?case by simp
qed

lemma attribute_no_pseudo:
  "list_all (\<lambda>mov. \<not> is_pseudo mov) post \<Longrightarrow>
   attribute post = map (\<lambda>mov. mov\<lparr>titular := Some []\<rparr>) post"
proof (induction post)
  case Nil
  then show ?case by simp
next
  case (Cons mov post)
  then show ?case using next_name_append [of post "[]"] by simp
qed

lemma attribute_append:
  "list_all (\<lambda>mov. \<not> is_pseudo mov) post \<Longrightarrow>
   attribute (pre @ post) = attribute pre @ map (\<lambda>mov. mov\<lparr>titular := Some []\<rparr>) post"
  by (induction pre) (simp_all add: attribute_no_pseudo next_name_append)

lemma attribute_titular: "list_all (\<lambda>mov. titular mov \<noteq> None) (attribute movs)"
  by (induction movs) simp_all

text \<open>
  C9: every record that the attribution pass returns has a \<^verbatim>\<open>titular\<close> that is a string;
  the movements after the last pseudo-movement are returned with the empty string as
  their \<^verbatim>\<open>titular\<close> and otherwise as they were, and so is every record when the input
  has no pseudo-movement.
\<close>

theorem unattributed_movements_empty_titular:
  "list_all (\<lambda>mov. titular mov \<noteq> None) (assign_titular_to_movements_advanced movements) \<and>
   (list_all (\<lambda>mov. \<not> is_pseudo mov) post \<longrightarrow>
      assign_titular_to_movements_advanced (pre @ post) =
        assign_titular_to_movements_advanced pre @ map (\<lambda>mov. mov\<lparr>titular := Some []\<rparr>) post) \<and>
   (list_all (\<lambda>mov. \<not> is_pseudo mov) movements \<longrightarrow>
      assign_titular_to_movements_advanced movements =
        map (\<lambda>mov. mov\<lparr>titular := Some []\<rparr>) movements)"
proof (intro conjI impI)
  show "list_all (\<lambda>mov. titular mov \<noteq> None) (assign_titular_to_movements_advanced movements)"
    unfolding assign_titular_attribute by (rule attribute_titular)
next
  assume "list_all (\<lambda>mov. \<not> is_pseudo mov) post"
  then show "assign_titular_to_movements_advanced (pre @ post) =
      assign_titular_to_movements_advanced pre @ map (\<lambda>mov. mov\<lparr>titular := Some []\<rparr>) post"
    unfolding assign_titular_attribute by (rule attribute_append)
next
  assume "list_all (\<lambda>mov. \<not> is_pseudo mov) movements"
  then show "assign_titular_to_movements_advanced movements =
      map (\<lambda>mov. mov\<lparr>titular := Some []\<rparr>) movements"
    unfolding assign_titular_attribute by (rule attribute_no_pseudo)
qed

theorem unattributed_movements_empty_titular_witness:
  "list_all (\<lambda>mov. \<not> is_pseudo mov) [saldo_actual_movement 1475] \<and>
   assign_titular_to_movements_advanced (common_movements @ [saldo_actual_movement 1475]) =
     assign_titular_to_movements_advanced common_movements @
     [(saldo_actual_movement 1475)\<lparr>titular := Some []\<rparr>] \<and>
   map titular (assign_titular_to_movements_advanced (common_movements @ [saldo_actual_movement 1475]))
     = [Some ''ANA PEREZ'', Some ''ANA PEREZ'', Some ''ANA PEREZ'', Some ''ANA PEREZ'', Some []]"
proof -
  have h: "list_all (\<lambda>mov. \<not> is_pseudo mov) [saldo_actual_movement 1475]"
    by code_simp
  have e: "map titular (assign_titular_to_movements_advanced (common_movements @ [saldo_actual_movement 1475]))
     = [Some ''ANA PEREZ'', Some ''ANA PEREZ'', Some ''ANA PEREZ'', Some ''ANA PEREZ'', Some []]"
    by code_simp
  from unattributed_movements_empty_titular
         [of common_movements "[saldo_actual_movement 1475]" common_movements] h e
  show ?thesis by simp
qed

text \<open>
  C1, as the claim states it, fails: the two movements that follow the pseudo-movement of
  Ana are returned under the name of Luis, and the three that follow the pseudo-movement
  of Luis under the empty name.
\<close>

theorem attribution_follows_counterexample:
  "map (\<lambda>mov. (descripcion mov, titular mov))
     (assign_titular_to_movements_advanced attribution_example) =
     [(''A'', Some ''Ana''), (''B'', Some ''Ana''), (''C'', Some ''Ana''),
      (''D'', Some ''Luis''), (''E'', Some ''Luis''),
      (''F'', Some []), (''G'', Some []), (''H'', Some [])] \<and>
   \<not> (list_all (\<lambda>mov. titular mov = Some ''Ana'')
        (filter (\<lambda>mov. descripcion mov \<in> set [''D'', ''E''])
           (assign_titular_to_movements_advanced attribution_example)) \<and>
      list_all (\<lambda>mov. titular mov = Some ''Luis'')
        (filter (\<lambda>mov. descripcion mov \<in> set [''F'', ''G'', ''H''])
           (assign_titular_to_movements_advanced attribution_example))) \<and>
   map titular (take 5 (assign_titular_to_movements_advanced attribution_example)) \<noteq>
     [Some ''Ana'', Some ''Ana'', Some ''Luis'', Some ''Luis'', Some ''Luis'']"
  by code_simp

text \<open>
  C1, amended: for three movements, the pseudo-movement of Ana at the index 3, two
  movements, the pseudo-movement of Luis at the index 6 and three movements, the pass
  returns the eight movements: the three before the pseudo-movement of Ana under her
  name, the two between the pseudo-movements under the name of Luis, the three after the
  pseudo-movement of Luis under the empty name; neither pseudo-movement is returned.
\<close>

theorem attribution_precedes:
  assumes "list_all (\<lambda>mov. \<not> is_pseudo mov) [a, b, c, t1, t2, t3, t4, t5]"
    and "get_titular ana = ''Ana''" and "get_titular luis = ''Luis''"
  shows "assign_titular_to_movements_advanced [a, b, c, ana, t1, t2, luis, t3, t4, t5] =
     [a\<lparr>titular := Some ''Ana''\<rparr>, b\<lparr>titular := Some ''Ana''\<rparr>, c\<lparr>titular := Some ''Ana''\<rparr>,
      t1\<lparr>titular := Some ''Luis''\<rparr>, t2\<lparr>titular := Some ''Luis''\<rparr>,
      t3\<lparr>titular := Some []\<rparr>, t4\<lparr>titular := Some []\<rparr>, t5\<lparr>titular := Some []\<rparr>]"
proof -
  have "is_pseudo ana" "is_pseudo luis"
    using assms by (simp_all add: is_pseudo_def)
  with assms show ?thesis
    by (simp add: assign_titular_attribute)
qed

theorem attribution_precedes_witness:
  "list_all (\<lambda>mov. \<not> is_pseudo mov)
     [compra ''A'', compra ''B'', compra ''C'', compra ''D'', compra ''E'',
      compra ''F'', compra ''G'', compra ''H''] \<and>
   get_titular (pseudo_movement ''Ana'') = ''Ana'' \<and>
   get_titular (pseudo_movement ''Luis'') = ''Luis'' \<and>
   assign_titular_to_movements_advanced attribution_example =
     [(compra ''A'')\<lparr>titular := Some ''Ana''\<rparr>, (compra ''B'')\<lparr>titular := Some ''Ana''\<rparr>,
      (compra ''C'')\<lparr>titular := Some ''Ana''\<rparr>,
      (compra ''D'')\<lparr>titular := Some ''Luis''\<rparr>, (compra ''E'')\<lparr>titular := Some ''Luis''\<rparr>,
      (compra ''F'')\<lparr>titular := Some []\<rparr>, (compra ''G'')\<lparr>titular := Some []\<rparr>,
      (compra ''H'')\<lparr>titular := Some []\<rparr>]"
proof -
  have h: "list_all (\<lambda>mov. \<not> is_pseudo mov)
     [compra ''A'', compra ''B'', compra ''C'', compra ''D'', compra ''E'',
      compra ''F'', compra ''G'', compra ''H'']"
    by code_simp
  have n: "get_titular (pseudo_movement ''Ana'') = ''Ana''"
    "get_titular (pseudo_movement ''Luis'') = ''Luis''"
    by (simp_all add: get_titular_def pseudo_movement_def)
  from attribution_precedes [OF h n] h n show ?thesis
    by (simp only: attribution_example_def simp_thms)
qed


section \<open>Date parser\<close>

lemma try_formats_None:
  "try_formats date_str fmts = None \<longleftrightarrow> list_all (\<lambda>fmt. strptime date_str fmt = None) fmts"
  by (induction fmts) (simp_all split: option.split)

lemma parse_date_None:
  "parse_date date_str formats = None \<longleftrightarrow>
     strip date_str = [] \<or>
     list_all (\<lambda>fmt. strptime (normalize_spanish_month (strip date_str)) fmt = None)
       (case formats of None \<Rightarrow> DATE_FORMATS | Some fs \<Rightarrow> if fs = [] then DATE_FORMATS else fs)"
proof (cases "date_str = []")
  case True
  then show ?thesis by (simp add: parse_date_def strip_def lstrip_def rstrip_def)
next
  case False
  then show ?thesis by (simp add: parse_date_def Let_def try_formats_None)
qed

text \<open>
  C5, as the claim states it, fails: with the default list of formats the string
  \<^verbatim>\<open>15 ene. 2025\<close> is normalised to \<^verbatim>\<open>15 jan. 2025\<close>, which none of the five default formats
  reads because of the full stop, and the result is \<open>None\<close>.
\<close>

theorem parse_date_default_formats_counterexample:
  "parse_date ''15 ene. 2025'' None = None \<and>
   parse_date ''15 ene. 2025'' None \<noteq> Some \<lparr>dt_year = 2025, dt_month = 1, dt_day = 15\<rparr> \<and>
   normalize_spanish_month ''15 ene. 2025'' = ''15 jan. 2025''"
  by code_simp

text \<open>
  C5, amended: \<^verbatim>\<open>parse_date("15 ene. 2025")\<close> returns the date 2025-01-15 when it is given the
  format of the Patagonia configuration, \<^verbatim>\<open>%d %b. %Y\<close>, and \<^verbatim>\<open>parse_date("15 ene 2025")\<close>
  returns it with the default list; a string that is empty or blank, or whose normalised
  form none of the formats tried reads, gives \<open>None\<close>, and \<open>None\<close> is given in these cases
  only. The formats tried are the default list when the caller gives none or an empty
  list. A \<^verbatim>\<open>ValueError\<close> of \<^verbatim>\<open>strptime\<close> is the value \<open>None\<close> of the model, which the loop
  passes over.
\<close>

theorem parse_date_spanish_month:
  "parse_date ''15 ene. 2025'' (Some [date_format patagonia_config]) =
     Some \<lparr>dt_year = 2025, dt_month = 1, dt_day = 15\<rparr> \<and>
   parse_date ''15 ene 2025'' None = Some \<lparr>dt_year = 2025, dt_month = 1, dt_day = 15\<rparr> \<and>
   parse_date [] formats = None \<and>
   (strip date_str = [] \<longrightarrow> parse_date date_str formats = None) \<and>
   (list_all (\<lambda>fmt. strptime (normalize_spanish_month (strip date_str)) fmt = None)
      (case formats of None \<Rightarrow> DATE_FORMATS | Some fs \<Rightarrow> if fs = [] then DATE_FORMATS else fs)
    \<longrightarrow> parse_date date_str formats = None) \<and>
   (parse_date date_str formats = None \<longrightarrow>
      strip date_str = [] \<or>
      list_all (\<lambda>fmt. strptime (normalize_spanish_month (strip date_str)) fmt = None)
        (case formats of None \<Rightarrow> DATE_FORMATS | Some fs \<Rightarrow> if fs = [] then DATE_FORMATS else fs))"
proof -
  have "parse_date ''15 ene. 2025'' (Some [date_format patagonia_config]) =
     Some \<lparr>dt_year = 2025, dt_month = 1, dt_day = 15\<rparr>"
    by code_simp
  moreover have "parse_date ''15 ene 2025'' None = Some \<lparr>dt_year = 2025, dt_month = 1, dt_day = 15\<rparr>"
    by code_simp
  moreover have "parse_date [] formats = None"
    by (simp add: parse_date_def)
  ultimately show ?thesis
    using parse_date_None [of date_str formats] by blast
qed

theorem parse_date_spanish_month_witness:
  "strip ''   '' = [] \<and> parse_date ''   '' None = None \<and>
   list_all (\<lambda>fmt. strptime (normalize_spanish_month (strip ''32/01/2025'')) fmt = None)
     DATE_FORMATS \<and>
   parse_date ''32/01/2025'' None = None \<and>
   parse_date ''29/02/2025'' None = None \<and>
   parse_date '' 29/02/2024 '' None = Some \<lparr>dt_year = 2024, dt_month = 2, dt_day = 29\<rparr>"
proof -
  have s: "strip ''   '' = []"
    by code_simp
  have n: "list_all (\<lambda>fmt. strptime (normalize_spanish_month (strip ''32/01/2025'')) fmt = None)
     DATE_FORMATS"
    by code_simp
  have l: "list_all (\<lambda>fmt. strptime (normalize_spanish_month (strip ''29/02/2025'')) fmt = None)
     DATE_FORMATS"
    by code_simp
  have d: "parse_date '' 29/02/2024 '' None = Some \<lparr>dt_year = 2024, dt_month = 2, dt_day = 29\<rparr>"
    by code_simp
  from parse_date_spanish_month [of None "''   ''"] s
  have "parse_date ''   '' None = None"
    by blast
  moreover from parse_date_spanish_month [of None "''32/01/2025''"] n
  have "parse_date ''32/01/2025'' None = None"
    by simp
  moreover from parse_date_spanish_month [of None "''29/02/2025''"] l
  have "parse_date ''29/02/2025'' None = None"
    by simp
  ultimately show ?thesis
    using s n d by blast
qed

end
